theory Spec2Isabelle
  imports Complex_Main "HOL-Library.Word"
begin

section \<open>Library membership cards (ex.py): data model\<close>

text \<open>
  A Python \<open>str\<close> is a sequence of Unicode code points, so it is modelled as a list of
  code points (\<open>len\<close> is \<open>length\<close>); \<open>bytes\<close> is a list of 8-bit words. \<open>lit\<close> turns an
  ASCII literal of the source into such a string; the accented letters of the source's
  literals are written as their code points.
\<close>

type_synonym str = "nat list"

type_synonym bytes = "8 word list"

definition lit :: "string \<Rightarrow> str" where
  "lit cs = map of_char cs"

text \<open>\<open>datetime.date\<close>: the three fields of a calendar date.\<close>

record fecha =
  year :: nat
  month :: nat
  day :: nat

text \<open>
  The dataclass \<open>Usuario\<close>. The field \<open>id\<close> is named \<open>id_usuario\<close>, since \<open>id\<close> is the
  identity function of HOL.
\<close>

record usuario =
  id_usuario :: str
  nombre :: str
  correo :: str
  tipo :: str
  fecha_registro :: fecha

text \<open>
  Exceptions are values. Every constructor carries the text that \<open>str(e)\<close> gives.
  \<open>ValueError\<close> is what the validator and the factory raise, \<open>UnicodeEncodeError\<close> what
  \<open>str.encode\<close> and \<open>print\<close> raise; \<open>OtraExcepcion\<close> stands for any other subclass of
  \<open>Exception\<close> (an \<open>OSError\<close> of the output stream, whatever an injected component
  raises). What \<open>except Exception\<close> does not catch (\<open>KeyboardInterrupt\<close>, \<open>SystemExit\<close>)
  is not an error of the program and is outside the model.
\<close>

datatype excepcion =
    ValueError str
  | UnicodeEncodeError str
  | OtraExcepcion str

fun str_exc :: "excepcion \<Rightarrow> str" where
  "str_exc (ValueError m) = m"
| "str_exc (UnicodeEncodeError m) = m"
| "str_exc (OtraExcepcion m) = m"

text \<open>
  A Python \<open>float\<close>: a finite value, given by the rational number it denotes (\<open>Finito 0\<close>
  is \<open>0.0\<close>), the negative zero, the two infinities, or NaN.
\<close>

datatype pyfloat =
    Finito rat
  | MenosCero
  | Infinito
  | MenosInfinito
  | NaN

section \<open>Built-in operations of Python used by the source\<close>

text \<open>
  \<open>str.strip()\<close> removes leading and trailing whitespace; a code point is whitespace
  when \<open>str.isspace\<close> holds of it.
\<close>

definition isspace :: "nat \<Rightarrow> bool" where
  "isspace c \<longleftrightarrow>
     (0x09 \<le> c \<and> c \<le> 0x0D) \<or> (0x1C \<le> c \<and> c \<le> 0x20) \<or> c = 0x85 \<or> c = 0xA0 \<or>
     c = 0x1680 \<or> (0x2000 \<le> c \<and> c \<le> 0x200A) \<or> c = 0x2028 \<or> c = 0x2029 \<or>
     c = 0x202F \<or> c = 0x205F \<or> c = 0x3000"

definition strip :: "str \<Rightarrow> str" where
  "strip s = rev (dropWhile isspace (rev (dropWhile isspace s)))"

text \<open>Decimal digits of a natural number, as \<open>str(n)\<close> and \<open>{n}\<close> print it.\<close>

fun digitos :: "nat \<Rightarrow> str" where
  "digitos n = (if n < 10 then [48 + n] else digitos (n div 10) @ [48 + n mod 10])"

declare digitos.simps [simp del]

text \<open>\<open>%0wd\<close>: the decimal digits, padded with zeros on the left to width \<open>w\<close>.\<close>

definition zfill :: "nat \<Rightarrow> nat \<Rightarrow> str" where
  "zfill w n = replicate (w - length (digitos n)) 48 @ digitos n"

text \<open>\<open>date.isoformat()\<close>: \<open>YYYY-MM-DD\<close>.\<close>

definition isoformat :: "fecha \<Rightarrow> str" where
  "isoformat d = zfill 4 (year d) @ lit ''-'' @ zfill 2 (month d) @ lit ''-'' @ zfill 2 (day d)"

text \<open>
  The format \<open>{x:.2f}\<close>. A finite value is rounded, from its exact value, to two
  decimals, a tie going to the even digit, and the sign of a negative value is printed
  even when it rounds to zero; the negative zero gives \<open>-0.00\<close>; an infinity and NaN
  give \<open>inf\<close>, \<open>-inf\<close> and \<open>nan\<close>, without decimals.
\<close>

definition round_half_even :: "rat \<Rightarrow> nat" where
  "round_half_even q =
     (let f = \<lfloor>q\<rfloor>; r = q - of_int f
      in nat (if r < 1 / 2 then f else if 1 / 2 < r then f + 1
              else if even f then f else f + 1))"

fun format_2f :: "pyfloat \<Rightarrow> str" where
  "format_2f (Finito x) =
     (let n = round_half_even (\<bar>x\<bar> * 100)
      in (if x < 0 then lit ''-'' else []) @ digitos (n div 100) @ lit ''.'' @ zfill 2 (n mod 100))"
| "format_2f MenosCero = lit ''-0.00''"
| "format_2f Infinito = lit ''inf''"
| "format_2f MenosInfinito = lit ''-inf''"
| "format_2f NaN = lit ''nan''"

text \<open>
  What a strict codec raises for a text it cannot encode: a \<open>UnicodeEncodeError\<close> whose
  text names the codec, the first run of consecutive characters that cannot be encoded
  (the character itself, escaped, when the run has length one) and the reason.
\<close>

definition hexdigit :: "nat \<Rightarrow> nat" where
  "hexdigit d = (if d < 10 then 48 + d else 87 + d)"

definition hex :: "nat \<Rightarrow> nat \<Rightarrow> str" where
  "hex k c = map (\<lambda>i. hexdigit (c div 16 ^ i mod 16)) (rev [0..<k])"

definition escape :: "nat \<Rightarrow> str" where
  "escape c =
     [0x5C] @ (if c < 0x100 then lit ''x'' @ hex 2 c
               else if c < 0x10000 then lit ''u'' @ hex 4 c
               else lit ''U'' @ hex 8 c)"

definition encode_error :: "str \<Rightarrow> str \<Rightarrow> nat \<Rightarrow> nat \<Rightarrow> nat \<Rightarrow> excepcion" where
  "encode_error codec reason c start end' =
     UnicodeEncodeError
       ([0x27] @ codec @ [0x27] @ lit '' codec can'' @ [0x27] @
        (if end' = start + 1
         then lit ''t encode character '' @ [0x27] @ escape c @ [0x27] @
              lit '' in position '' @ digitos start
         else lit ''t encode characters in position '' @ digitos start @ lit ''-'' @
              digitos (end' - 1)) @
        lit '': '' @ reason)"

definition codec_error :: "str \<Rightarrow> str \<Rightarrow> (nat \<Rightarrow> bool) \<Rightarrow> str \<Rightarrow> excepcion option" where
  "codec_error codec reason bad s =
     (case dropWhile (\<lambda>c. \<not> bad c) s of
        [] \<Rightarrow> None
      | c # rest \<Rightarrow>
          (let start = length (takeWhile (\<lambda>c. \<not> bad c) s)
           in Some (encode_error codec reason c start
                      (start + 1 + length (takeWhile bad rest)))))"

text \<open>
  \<open>str.encode('utf-8')\<close>. A code point below \<open>0x110000\<close> that is no surrogate is written in
  one to four bytes; a surrogate (\<open>U+D800\<close> to \<open>U+DFFF\<close>) makes the codec raise.
\<close>

definition surrogate :: "nat \<Rightarrow> bool" where
  "surrogate c \<longleftrightarrow> 0xD800 \<le> c \<and> c \<le> 0xDFFF"

definition utf8_cp :: "nat \<Rightarrow> nat list" where
  "utf8_cp c =
     (if c < 0x80 then [c]
      else if c < 0x800 then [0xC0 + c div 64, 0x80 + c mod 64]
      else if c < 0x10000 then [0xE0 + c div 4096, 0x80 + c div 64 mod 64, 0x80 + c mod 64]
      else [0xF0 + c div 262144, 0x80 + c div 4096 mod 64, 0x80 + c div 64 mod 64,
            0x80 + c mod 64])"

definition utf8_error :: "str \<Rightarrow> excepcion option" where
  "utf8_error s = codec_error (lit ''utf-8'') (lit ''surrogates not allowed'') surrogate s"

definition encode_utf8 :: "str \<Rightarrow> excepcion + bytes" where
  "encode_utf8 s =
     (case utf8_error s of
        Some e \<Rightarrow> Inl e
      | None \<Rightarrow> Inr (map of_nat (concat (map utf8_cp s))))"

text \<open>What the strict ASCII codec raises: it encodes the code points below 128.\<close>

definition ascii_error :: "str \<Rightarrow> excepcion option" where
  "ascii_error s =
     codec_error (lit ''ascii'') (lit ''ordinal not in range(128)'') (\<lambda>c. 128 \<le> c) s"

text \<open>
  \<open>bytes.decode('utf-8')\<close> accepts exactly the well-formed sequences: the shortest
  encoding of a code point below \<open>0x110000\<close> that is no surrogate. \<open>None\<close> stands for the
  \<open>UnicodeDecodeError\<close> it raises otherwise; the source never looks at that exception.
\<close>

definition cont :: "nat \<Rightarrow> bool" where
  "cont b \<longleftrightarrow> 0x80 \<le> b \<and> b < 0xC0"

fun decode_nat :: "nat list \<Rightarrow> str option" where
  "decode_nat [] = Some []"
| "decode_nat (b0 # bs) =
     (if b0 < 0x80 then map_option ((#) b0) (decode_nat bs)
      else if 0xC0 \<le> b0 \<and> b0 < 0xE0 then
        (case bs of
           b1 # r \<Rightarrow>
             if cont b1 \<and> 0x80 \<le> (b0 - 0xC0) * 64 + (b1 - 0x80)
             then map_option ((#) ((b0 - 0xC0) * 64 + (b1 - 0x80))) (decode_nat r)
             else None
         | _ \<Rightarrow> None)
      else if 0xE0 \<le> b0 \<and> b0 < 0xF0 then
        (case bs of
           b1 # b2 # r \<Rightarrow>
             if cont b1 \<and> cont b2 \<and>
                0x800 \<le> (b0 - 0xE0) * 4096 + (b1 - 0x80) * 64 + (b2 - 0x80) \<and>
                \<not> surrogate ((b0 - 0xE0) * 4096 + (b1 - 0x80) * 64 + (b2 - 0x80))
             then map_option ((#) ((b0 - 0xE0) * 4096 + (b1 - 0x80) * 64 + (b2 - 0x80)))
                    (decode_nat r)
             else None
         | _ \<Rightarrow> None)
      else if 0xF0 \<le> b0 \<and> b0 < 0xF8 then
        (case bs of
           b1 # b2 # b3 # r \<Rightarrow>
             if cont b1 \<and> cont b2 \<and> cont b3 \<and>
                0x10000 \<le> (b0 - 0xF0) * 262144 + (b1 - 0x80) * 4096 + (b2 - 0x80) * 64 +
                  (b3 - 0x80) \<and>
                (b0 - 0xF0) * 262144 + (b1 - 0x80) * 4096 + (b2 - 0x80) * 64 + (b3 - 0x80)
                  < 0x110000
             then map_option
                    ((#) ((b0 - 0xF0) * 262144 + (b1 - 0x80) * 4096 + (b2 - 0x80) * 64 +
                       (b3 - 0x80)))
                    (decode_nat r)
             else None
         | _ \<Rightarrow> None)
      else None)"

definition decode_utf8 :: "bytes \<Rightarrow> str option" where
  "decode_utf8 bs = decode_nat (map unat bs)"

section \<open>Effects: the repository's store, the console, the clock\<close>

text \<open>
  The state that the program reads and writes: the list \<open>_store\<close> of the in-memory
  repository; the console, where \<open>stdout\<close> holds the texts of the calls of \<open>print\<close> that
  succeeded and \<open>stdout_falla\<close> says, from what has been printed so far and the text to
  print, whether \<open>print\<close> raises and what (a codec that cannot encode the text, a broken
  stream); the date \<open>hoy\<close> that \<open>datetime.date.today()\<close> returns and the identifiers that
  the next calls of \<open>uuid.uuid4()\<close> return. A method with effects takes the state and
  returns it with its result, an exception or a value; a method that raises may have
  changed the state before.
\<close>

record registro =
  usuario :: usuario
  costo :: pyfloat
  carne :: bytes

record mundo =
  store :: "registro list"
  stdout :: "str list"
  stdout_falla :: "str list \<Rightarrow> str \<Rightarrow> excepcion option"
  hoy :: fecha
  uuid4_siguientes :: "nat \<Rightarrow> str"

type_synonym 'a efecto = "mundo \<Rightarrow> (excepcion + 'a) \<times> mundo"

definition puro :: "excepcion + 'a \<Rightarrow> 'a efecto" where
  "puro r w = (r, w)"

text \<open>One statement after another: an exception of the first skips the second.\<close>

definition luego :: "'a efecto \<Rightarrow> ('a \<Rightarrow> 'b efecto) \<Rightarrow> 'b efecto" where
  "luego m f w = (case m w of (Inl e, w1) \<Rightarrow> (Inl e, w1) | (Inr x, w1) \<Rightarrow> f x w1)"

text \<open>\<open>try: m except Exception as e: h\<close>.\<close>

definition capturar :: "'a efecto \<Rightarrow> (excepcion \<Rightarrow> 'a efecto) \<Rightarrow> 'a efecto" where
  "capturar m h w = (case m w of (Inl e, w1) \<Rightarrow> h e w1 | (Inr x, w1) \<Rightarrow> (Inr x, w1))"

text \<open>
  \<open>print(s)\<close>: the text reaches the console, or the stream raises and nothing of the text
  is written.
\<close>

definition print_stdout :: "str \<Rightarrow> unit efecto" where
  "print_stdout s w =
     (case stdout_falla w (stdout w) s of
        Some e \<Rightarrow> (Inl e, w)
      | None \<Rightarrow> (Inr (), w\<lparr>stdout := stdout w @ [s]\<rparr>))"

text \<open>
  Two consoles: one that encodes as UTF-8 and one that encodes as ASCII, both with the
  error handler \<open>strict\<close>.
\<close>

definition utf8_estricto :: "str list \<Rightarrow> str \<Rightarrow> excepcion option" where
  "utf8_estricto impreso s = utf8_error s"

definition ascii_estricto :: "str list \<Rightarrow> str \<Rightarrow> excepcion option" where
  "ascii_estricto impreso s = ascii_error s"

text \<open>
  \<open>Usuario.nuevo\<close> draws the identifier from \<open>uuid.uuid4()\<close> and the date from
  \<open>datetime.date.today()\<close>.
\<close>

definition nuevo :: "str \<Rightarrow> str \<Rightarrow> str \<Rightarrow> mundo \<Rightarrow> usuario \<times> mundo" where
  "nuevo nombre' correo' tipo' w =
     (\<lparr>id_usuario = uuid4_siguientes w 0, nombre = nombre', correo = correo', tipo = tipo',
       fecha_registro = hoy w\<rparr>,
      w\<lparr>uuid4_siguientes := (\<lambda>n. uuid4_siguientes w (Suc n))\<rparr>)"

section \<open>UsuarioValidator\<close>

definition tipos :: "str list" where
  "tipos = [lit ''estudiante_pre'', lit ''estudiante_pos'', lit ''docente'',
            lit ''administrativo'', lit ''externo'']"

definition UsuarioValidator_validar :: "usuario \<Rightarrow> excepcion + unit" where
  "UsuarioValidator_validar u =
     (if nombre u = [] \<or> length (strip (nombre u)) < 2 then
        Inl (ValueError (lit ''Nombre inv'' @ [0xE1] @ lit ''lido''))
      else if 0x40 \<notin> set (correo u) \<or> length (strip (correo u)) < 5 then
        Inl (ValueError (lit ''Correo inv'' @ [0xE1] @ lit ''lido''))
      else if tipo u \<notin> set tipos then
        Inl (ValueError (lit ''Tipo de usuario desconocido: '' @ tipo u))
      else Inr ())"

section \<open>Fee strategies and CostoFactory\<close>

datatype costo_strategy =
    CostoEstudiantePre
  | CostoEstudiantePos
  | CostoDocente
  | CostoAdministrativo
  | CostoExterno

fun calcular :: "costo_strategy \<Rightarrow> usuario \<Rightarrow> pyfloat" where
  "calcular CostoEstudiantePre u = Finito 10"
| "calcular CostoEstudiantePos u = Finito 12"
| "calcular CostoDocente u = Finito 5"
| "calcular CostoAdministrativo u = Finito 6"
| "calcular CostoExterno u = Finito 20"

text \<open>The class attribute \<open>_mapping\<close>, a dictionary written as its list of items.\<close>

definition mapping_costo :: "(str \<times> costo_strategy) list" where
  "mapping_costo =
     [(lit ''estudiante_pre'', CostoEstudiantePre),
      (lit ''estudiante_pos'', CostoEstudiantePos),
      (lit ''docente'', CostoDocente),
      (lit ''administrativo'', CostoAdministrativo),
      (lit ''externo'', CostoExterno)]"

definition get_costo_strategy :: "str \<Rightarrow> excepcion + costo_strategy" where
  "get_costo_strategy t =
     (case map_of mapping_costo t of
        None \<Rightarrow> Inl (ValueError (lit ''No hay estrategia de costo para tipo: '' @ t))
      | Some c \<Rightarrow> Inr c)"

section \<open>SimpleCardGenerator\<close>

definition contenido :: "usuario \<Rightarrow> pyfloat \<Rightarrow> str" where
  "contenido u c =
     lit ''CARNE BIBLIOTECA UNSCH'' @ [0x0A] @
     lit ''Nombre: '' @ nombre u @ [0x0A] @
     lit ''ID: '' @ id_usuario u @ [0x0A] @
     lit ''Tipo: '' @ tipo u @ [0x0A] @
     lit ''Costo: S/ '' @ format_2f c @ [0x0A] @
     lit ''Fecha: '' @ isoformat (fecha_registro u) @ [0x0A]"

definition SimpleCardGenerator_generar :: "usuario \<Rightarrow> pyfloat \<Rightarrow> bytes efecto" where
  "SimpleCardGenerator_generar u c w = (encode_utf8 (contenido u c), w)"

section \<open>EmailNotifier\<close>

record email_notifier =
  smtp_server :: str
  smtp_port :: nat

definition EmailNotifier_enviar ::
  "email_notifier \<Rightarrow> str \<Rightarrow> str \<Rightarrow> str \<Rightarrow> bytes option \<Rightarrow> unit efecto" where
  "EmailNotifier_enviar self destinatario asunto cuerpo attachment =
     luego
       (print_stdout
          (lit ''[EmailNotifier] Enviando email a '' @ destinatario @ lit '': '' @ asunto @
           [0x0A] @ take 80 cuerpo @ lit ''...''))
       (\<lambda>_. case attachment of
               None \<Rightarrow> puro (Inr ())
             | Some a \<Rightarrow>
                 if a = [] then puro (Inr ())
                 else print_stdout
                        (lit ''[EmailNotifier] Attachment size: '' @ digitos (length a) @
                         lit '' bytes''))"

section \<open>Repositories\<close>

text \<open>The record is appended first; the \<open>print\<close> that follows may still raise.\<close>

definition InMemoryRepository_guardar_usuario ::
  "usuario \<Rightarrow> pyfloat \<Rightarrow> bytes \<Rightarrow> unit efecto" where
  "InMemoryRepository_guardar_usuario u c carne_bin w =
     (let w1 = w\<lparr>store := store w @ [\<lparr>usuario = u, costo = c, carne = carne_bin\<rparr>]\<rparr>
      in print_stdout
           (lit ''[InMemoryRepository] Usuario '' @ id_usuario u @
            lit '' guardado (mem). Total registros: '' @ digitos (length (store w1))) w1)"

record mysql_repository =
  host :: str
  user :: str
  password :: str
  database :: str

definition MySQLRepository_guardar_usuario ::
  "mysql_repository \<Rightarrow> usuario \<Rightarrow> pyfloat \<Rightarrow> bytes \<Rightarrow> unit efecto" where
  "MySQLRepository_guardar_usuario self u c carne_bin =
     print_stdout
       (lit ''[MySQLRepository] Guardando usuario '' @ id_usuario u @ lit '' en '' @
        database self @ lit ''@'' @ host self)"

section \<open>ConsolePrinter\<close>

text \<open>
  The header is printed before the \<open>try\<close>. In the \<open>try\<close>, the bytes are decoded and the
  text is printed; when the decoder raises, or the \<open>print\<close> of the text does, the handler
  prints the number of bytes, and that \<open>print\<close> is not protected.
\<close>

definition ConsolePrinter_imprimir :: "bytes \<Rightarrow> unit efecto" where
  "ConsolePrinter_imprimir carcarn =
     luego
       (print_stdout (lit ''[ConsolePrinter] Imprimiendo carn'' @ [0xE9] @ lit '':'' @ [0x0A]))
       (\<lambda>_. case decode_utf8 carcarn of
               Some texto \<Rightarrow>
                 capturar (print_stdout texto)
                   (\<lambda>e. print_stdout
                          (lit ''[ConsolePrinter] (binario) '' @ digitos (length carcarn) @
                           lit '' bytes''))
             | None \<Rightarrow>
                 print_stdout
                   (lit ''[ConsolePrinter] (binario) '' @ digitos (length carcarn) @
                    lit '' bytes''))"

section \<open>GestorCarne\<close>

record gestor =
  validator :: "usuario \<Rightarrow> unit efecto"
  repo :: "usuario \<Rightarrow> pyfloat \<Rightarrow> bytes \<Rightarrow> unit efecto"
  notifier :: "str \<Rightarrow> str \<Rightarrow> str \<Rightarrow> bytes option \<Rightarrow> unit efecto"
  card_generator :: "usuario \<Rightarrow> pyfloat \<Rightarrow> bytes efecto"
  printer :: "bytes \<Rightarrow> unit efecto"

text \<open>The dictionary that \<open>emitir_carne\<close> returns.\<close>

record resultado =
  usuario_id :: str
  costo_resultado :: pyfloat

definition asunto_carne :: str where
  "asunto_carne = lit ''Su carn'' @ [0xE9] @ lit '' de la Biblioteca Central - UNSCH''"

definition cuerpo_carne :: "usuario \<Rightarrow> pyfloat \<Rightarrow> str" where
  "cuerpo_carne u c =
     lit ''Estimado/a '' @ nombre u @ lit '','' @ [0x0A] @
     lit ''Su carn'' @ [0xE9] @ lit '' est'' @ [0xE1] @ lit '' listo.'' @ [0x0A] @
     lit ''Costo: S/ '' @ format_2f c @ [0x0A] @
     lit ''ID: '' @ id_usuario u @ [0x0A]"

text \<open>
  The two \<open>try\<close> statements at the end of \<open>emitir_carne\<close>: the call, and the handler that
  prints the exception. The handler's \<open>print\<close> is not protected: an exception of it
  leaves \<open>emitir_carne\<close>.
\<close>

definition linea_error_enviar :: "excepcion \<Rightarrow> str" where
  "linea_error_enviar e =
     lit ''[GestorCarne] Error enviando notificaci'' @ [0xF3] @ lit ''n: '' @ str_exc e"

definition linea_error_imprimir :: "excepcion \<Rightarrow> str" where
  "linea_error_imprimir e =
     lit ''[GestorCarne] Error imprimiendo carn'' @ [0xE9] @ lit '': '' @ str_exc e"

definition try_enviar :: "gestor \<Rightarrow> usuario \<Rightarrow> pyfloat \<Rightarrow> bytes \<Rightarrow> unit efecto" where
  "try_enviar g u c carne_bin =
     capturar (notifier g (correo u) asunto_carne (cuerpo_carne u c) (Some carne_bin))
       (\<lambda>e. print_stdout (linea_error_enviar e))"

definition try_imprimir :: "gestor \<Rightarrow> bytes \<Rightarrow> unit efecto" where
  "try_imprimir g carne_bin =
     capturar (printer g carne_bin) (\<lambda>e. print_stdout (linea_error_imprimir e))"

definition emitir_carne :: "gestor \<Rightarrow> usuario \<Rightarrow> resultado efecto" where
  "emitir_carne g u =
     luego (validator g u) (\<lambda>_.
     luego (puro (get_costo_strategy (tipo u))) (\<lambda>costo_strategy.
     let c = calcular costo_strategy u in
     luego (card_generator g u c) (\<lambda>carne_bin.
     luego (repo g u c carne_bin) (\<lambda>_.
     luego (try_enviar g u c carne_bin) (\<lambda>_.
     luego (try_imprimir g carne_bin) (\<lambda>_.
     puro (Inr \<lparr>usuario_id = id_usuario u, costo_resultado = c\<rparr>)))))))"

text \<open>The wiring of the example driver at the end of the file.\<close>

definition gestor_ejemplo :: gestor where
  "gestor_ejemplo =
     \<lparr>validator = (\<lambda>u. puro (UsuarioValidator_validar u)),
      repo = InMemoryRepository_guardar_usuario,
      notifier = EmailNotifier_enviar
                   \<lparr>smtp_server = lit ''smtp.miuniversidad.edu'', smtp_port = 587\<rparr>,
      card_generator = SimpleCardGenerator_generar,
      printer = ConsolePrinter_imprimir\<rparr>"

section \<open>The card document format of the specification\<close>




section \<open>The outcome of a protected call\<close>

text \<open>
  For one of the two \<open>try\<close> statements of \<open>emitir_carne\<close>, given the outcome of the call
  and the line that the handler prints for an exception: \<open>se_registra\<close> says that the call
  returned, or that it raised and the console accepts the handler's line; \<open>estado_tras\<close>
  is the state after the \<open>try\<close> statement in that case.
\<close>

definition se_registra :: "(excepcion + unit) \<times> mundo \<Rightarrow> (excepcion \<Rightarrow> str) \<Rightarrow> bool" where
  "se_registra r linea =
     (case r of
        (Inr _, w') \<Rightarrow> True
      | (Inl e, w') \<Rightarrow> stdout_falla w' (stdout w') (linea e) = None)"

definition estado_tras :: "(excepcion + unit) \<times> mundo \<Rightarrow> (excepcion \<Rightarrow> str) \<Rightarrow> mundo" where
  "estado_tras r linea =
     (case r of
        (Inr _, w') \<Rightarrow> w'
      | (Inl e, w') \<Rightarrow> w'\<lparr>stdout := stdout w' @ [linea e]\<rparr>)"

section \<open>Example inputs\<close>

text \<open>
  The members of the end-to-end examples: a valid undergraduate, a member whose name and
  e-mail are both invalid, and a member whose name starts with the lone surrogate
  \<open>U+D800\<close> (a string that Python accepts and that the validator accepts).
\<close>

definition ana :: usuario where
  "ana = \<lparr>id_usuario = lit ''0001'', nombre = lit ''Ana Torres'', correo = lit ''ana@uni.edu'',
           tipo = lit ''estudiante_pre'',
           fecha_registro = \<lparr>year = 2024, month = 3, day = 7\<rparr>\<rparr>"

definition equis :: usuario where
  "equis = \<lparr>id_usuario = lit ''0002'', nombre = lit ''X'', correo = lit ''bad'',
             tipo = lit ''docente'',
             fecha_registro = \<lparr>year = 2024, month = 3, day = 7\<rparr>\<rparr>"

definition sustituto :: usuario where
  "sustituto = \<lparr>id_usuario = lit ''0003'', nombre = [0xD800] @ lit ''ab'',
                 correo = lit ''ab@uni.edu'', tipo = lit ''docente'',
                 fecha_registro = \<lparr>year = 2024, month = 3, day = 7\<rparr>\<rparr>"

text \<open>
  The state before the first run, on a console that encodes as UTF-8, and the same on a
  console that encodes as ASCII.
\<close>

definition mundo_inicial :: mundo where
  "mundo_inicial =
     \<lparr>store = [], stdout = [], stdout_falla = utf8_estricto,
      hoy = \<lparr>year = 2024, month = 3, day = 7\<rparr>,
      uuid4_siguientes = (\<lambda>n. lit ''uuid-'' @ digitos n)\<rparr>"

definition mundo_ascii :: mundo where
  "mundo_ascii = mundo_inicial\<lparr>stdout_falla := ascii_estricto\<rparr>"

text \<open>
  A notifier and a printer that always raise, and a notifier whose exception has a text
  with a lone surrogate in it.
\<close>

definition notifier_falla :: "str \<Rightarrow> str \<Rightarrow> str \<Rightarrow> bytes option \<Rightarrow> unit efecto" where
  "notifier_falla destinatario asunto cuerpo attachment w =
     (Inl (OtraExcepcion (lit ''smtp down'')), w)"

definition printer_falla :: "bytes \<Rightarrow> unit efecto" where
  "printer_falla carcarn w = (Inl (OtraExcepcion (lit ''out of paper'')), w)"

definition notifier_sustituto :: "str \<Rightarrow> str \<Rightarrow> str \<Rightarrow> bytes option \<Rightarrow> unit efecto" where
  "notifier_sustituto destinatario asunto cuerpo attachment w =
     (Inl (OtraExcepcion (lit ''no route to '' @ [0xD800] @ lit ''.example'')), w)"

text \<open>The example wiring with another notifier and another printer injected.\<close>

definition gestor_con ::
  "(str \<Rightarrow> str \<Rightarrow> str \<Rightarrow> bytes option \<Rightarrow> unit efecto) \<Rightarrow> (bytes \<Rightarrow> unit efecto) \<Rightarrow> gestor" where
  "gestor_con n p = gestor_ejemplo\<lparr>notifier := n, printer := p\<rparr>"

section \<open>The fee table\<close>

lemma get_costo_strategy_cases:
  "get_costo_strategy t =
     (if t = lit ''estudiante_pre'' then Inr CostoEstudiantePre
      else if t = lit ''estudiante_pos'' then Inr CostoEstudiantePos
      else if t = lit ''docente'' then Inr CostoDocente
      else if t = lit ''administrativo'' then Inr CostoAdministrativo
      else if t = lit ''externo'' then Inr CostoExterno
      else Inl (ValueError (lit ''No hay estrategia de costo para tipo: '' @ t)))"
  by (simp add: get_costo_strategy_def mapping_costo_def)

lemma tipos_iff:
  "t \<in> set tipos \<longleftrightarrow>
     t = lit ''estudiante_pre'' \<or> t = lit ''estudiante_pos'' \<or> t = lit ''docente'' \<or>
     t = lit ''administrativo'' \<or> t = lit ''externo''"
  by (simp add: tipos_def)

text \<open>
  C3. The factory's lookup followed by \<open>calcular\<close> gives 10 for \<open>estudiante_pre\<close>, 12 for
  \<open>estudiante_pos\<close>, 5 for \<open>docente\<close>, 6 for \<open>administrativo\<close> and 20 for \<open>externo\<close>; for
  every other string it raises the factory's \<open>ValueError\<close>. The amount depends on the
  category only: no state is read or written, and the member passed to \<open>calcular\<close> does
  not matter.
\<close>

theorem fee_table:
  "map_sum id (\<lambda>s. calcular s u) (get_costo_strategy t) =
     (if t = lit ''estudiante_pre'' then Inr (Finito 10)
      else if t = lit ''estudiante_pos'' then Inr (Finito 12)
      else if t = lit ''docente'' then Inr (Finito 5)
      else if t = lit ''administrativo'' then Inr (Finito 6)
      else if t = lit ''externo'' then Inr (Finito 20)
      else Inl (ValueError (lit ''No hay estrategia de costo para tipo: '' @ t)))"
  by (simp add: get_costo_strategy_cases)

theorem fee_table_witness:
  "map_sum id (\<lambda>s. calcular s ana) (get_costo_strategy (lit ''docente'')) = Inr (Finito 5) \<and>
   map_sum id (\<lambda>s. calcular s ana) (get_costo_strategy (lit ''jubilado'')) =
     Inl (ValueError (lit ''No hay estrategia de costo para tipo: jubilado''))"
  using fee_table [of ana "lit ''docente''"] fee_table [of ana "lit ''jubilado''"]
  by (simp add: lit_def)

section \<open>Validation\<close>

lemma ana_campos:
  "nombre ana \<noteq> []" "\<not> length (strip (nombre ana)) < 2" "0x40 \<in> set (correo ana)"
  "\<not> length (strip (correo ana)) < 5" "tipo ana = lit ''estudiante_pre''"
  by (simp_all add: ana_def lit_def strip_def isspace_def)

lemma validar_ana: "UsuarioValidator_validar ana = Inr ()"
  by (simp add: UsuarioValidator_validar_def ana_campos tipos_iff)

lemma strip_equis: "length (strip (nombre equis)) < 2"
  by (simp add: equis_def lit_def strip_def isspace_def)

lemma nombre_invalido:
  "nombre u = [] \<or> length (strip (nombre u)) < 2 \<Longrightarrow>
   UsuarioValidator_validar u = Inl (ValueError (lit ''Nombre inv'' @ [0xE1] @ lit ''lido''))"
  by (simp add: UsuarioValidator_validar_def)

lemma validar_Inr_tipo: "UsuarioValidator_validar u = Inr () \<Longrightarrow> tipo u \<in> set tipos"
  by (simp add: UsuarioValidator_validar_def split: if_splits)

lemma keys_mapping_costo: "fst ` set mapping_costo = set tipos"
  by (simp add: mapping_costo_def tipos_def)

lemma tipos_get_costo_strategy:
  "t \<in> set tipos \<Longrightarrow> \<exists>s. get_costo_strategy t = Inr s"
  by (auto simp add: get_costo_strategy_cases tipos_iff)

lemma emitir_carne_validator_Inl:
  "validator g u w = (Inl e, w1) \<Longrightarrow> emitir_carne g u w = (Inl e, w1)"
  by (simp add: emitir_carne_def luego_def)

text \<open>
  C4. \<open>validar\<close> raises (a \<open>ValueError\<close>) exactly when the name is empty or has fewer than
  two characters after \<open>strip\<close>, or the e-mail has no \<open>@\<close> or fewer than five characters
  after \<open>strip\<close>, or the category is none of the five recognised strings; otherwise it
  returns normally. As wired into the orchestrator it leaves the state as it found it.
\<close>

theorem validar_iff:
  "((\<exists>m. UsuarioValidator_validar u = Inl (ValueError m)) \<longleftrightarrow>
      nombre u = [] \<or> length (strip (nombre u)) < 2 \<or>
      0x40 \<notin> set (correo u) \<or> length (strip (correo u)) < 5 \<or>
      \<not> (tipo u = lit ''estudiante_pre'' \<or> tipo u = lit ''estudiante_pos'' \<or>
         tipo u = lit ''docente'' \<or> tipo u = lit ''administrativo'' \<or>
         tipo u = lit ''externo'')) \<and>
   (UsuarioValidator_validar u = Inr () \<or>
    (\<exists>m. UsuarioValidator_validar u = Inl (ValueError m))) \<and>
   validator gestor_ejemplo u w = (UsuarioValidator_validar u, w)"
  by (auto simp add: UsuarioValidator_validar_def tipos_iff gestor_ejemplo_def puro_def)

theorem validar_iff_witness:
  "UsuarioValidator_validar ana = Inr () \<and>
   (\<exists>m. UsuarioValidator_validar equis = Inl (ValueError m))"
  using validar_iff [of ana mundo_inicial] validar_iff [of equis mundo_inicial]
    ana_campos strip_equis
  by auto

text \<open>
  C5. The validator's set of categories is the set of keys of the factory's table, so
  for a member that passed validation the lookup of the fee strategy succeeds; with
  this validator, whatever the other components are, an exception that leaves
  \<open>emitir_carne\<close> after validation passed is one that the card generator or the
  repository raised, or that the \<open>print\<close> in one of the two handlers raised, never the
  factory's.
\<close>

theorem validated_tipo_has_strategy:
  "fst ` set mapping_costo = set tipos \<and>
   (UsuarioValidator_validar u = Inr () \<longrightarrow>
      (\<exists>s. get_costo_strategy (tipo u) = Inr s) \<and>
      (\<forall>e w'. emitir_carne (g\<lparr>validator := \<lambda>u. puro (UsuarioValidator_validar u)\<rparr>) u w =
                 (Inl e, w') \<longrightarrow>
         (\<exists>c. card_generator g u c w = (Inl e, w')) \<or>
         (\<exists>c b w2. repo g u c b w2 = (Inl e, w')) \<or>
         (\<exists>e1 w2. print_stdout (linea_error_enviar e1) w2 = (Inl e, w')) \<or>
         (\<exists>e2 w2. print_stdout (linea_error_imprimir e2) w2 = (Inl e, w'))))"
proof (intro conjI impI)
  show "fst ` set mapping_costo = set tipos" by (rule keys_mapping_costo)
next
  assume v: "UsuarioValidator_validar u = Inr ()"
  from tipos_get_costo_strategy [OF validar_Inr_tipo [OF v]]
  obtain s where s: "get_costo_strategy (tipo u) = Inr s" ..
  then show "\<exists>s. get_costo_strategy (tipo u) = Inr s" ..
  show "\<forall>e w'. emitir_carne (g\<lparr>validator := \<lambda>u. puro (UsuarioValidator_validar u)\<rparr>) u w =
                 (Inl e, w') \<longrightarrow>
         (\<exists>c. card_generator g u c w = (Inl e, w')) \<or>
         (\<exists>c b w2. repo g u c b w2 = (Inl e, w')) \<or>
         (\<exists>e1 w2. print_stdout (linea_error_enviar e1) w2 = (Inl e, w')) \<or>
         (\<exists>e2 w2. print_stdout (linea_error_imprimir e2) w2 = (Inl e, w'))"
    using v s
    by (auto simp add: emitir_carne_def puro_def luego_def capturar_def try_enviar_def
        try_imprimir_def Let_def split: prod.splits sum.splits)
qed

theorem validated_tipo_has_strategy_witness:
  "UsuarioValidator_validar ana = Inr () \<and> (\<exists>s. get_costo_strategy (tipo ana) = Inr s)"
  using validated_tipo_has_strategy [of ana gestor_ejemplo mundo_inicial] validar_ana
  by simp

text \<open>
  C8. The name is checked first: a member whose name is invalid gets the name error
  whatever its e-mail and category are, and a member whose name is valid and whose
  e-mail is invalid gets the e-mail error whatever its category is. In both cases
  \<open>emitir_carne\<close> returns that error with the state untouched, whatever the repository
  and the other components are: nothing is persisted.
\<close>

theorem name_checked_first:
  "(nombre u = [] \<or> length (strip (nombre u)) < 2 \<longrightarrow>
      UsuarioValidator_validar u = Inl (ValueError (lit ''Nombre inv'' @ [0xE1] @ lit ''lido'')) \<and>
      emitir_carne (g\<lparr>validator := \<lambda>u. puro (UsuarioValidator_validar u)\<rparr>) u w =
        (Inl (ValueError (lit ''Nombre inv'' @ [0xE1] @ lit ''lido'')), w)) \<and>
   (\<not> (nombre u = [] \<or> length (strip (nombre u)) < 2) \<and>
    (0x40 \<notin> set (correo u) \<or> length (strip (correo u)) < 5) \<longrightarrow>
      UsuarioValidator_validar u = Inl (ValueError (lit ''Correo inv'' @ [0xE1] @ lit ''lido'')) \<and>
      emitir_carne (g\<lparr>validator := \<lambda>u. puro (UsuarioValidator_validar u)\<rparr>) u w =
        (Inl (ValueError (lit ''Correo inv'' @ [0xE1] @ lit ''lido'')), w))"
  by (auto simp add: UsuarioValidator_validar_def emitir_carne_validator_Inl puro_def)

theorem name_checked_first_witness:
  "UsuarioValidator_validar equis = Inl (ValueError (lit ''Nombre inv'' @ [0xE1] @ lit ''lido'')) \<and>
   emitir_carne gestor_ejemplo equis mundo_inicial =
     (Inl (ValueError (lit ''Nombre inv'' @ [0xE1] @ lit ''lido'')), mundo_inicial)"
  using name_checked_first [of equis gestor_ejemplo mundo_inicial] strip_equis
  by (simp add: gestor_ejemplo_def)

text \<open>
  C1. When validation fails, \<open>emitir_carne\<close> returns the validator's exception (a
  \<open>ValueError\<close>) and the state it was given, and this for every repository, notifier,
  card generator and printer: none of them has run, since any of them could have
  changed the state, and the store holds what it held.
\<close>

theorem invalid_member_aborts:
  "UsuarioValidator_validar u = Inl e \<Longrightarrow>
   emitir_carne (g\<lparr>validator := \<lambda>u. puro (UsuarioValidator_validar u)\<rparr>) u w = (Inl e, w) \<and>
   (\<exists>m. e = ValueError m)"
  by (auto simp add: emitir_carne_validator_Inl puro_def UsuarioValidator_validar_def
      split: if_splits)

theorem invalid_member_aborts_witness:
  "emitir_carne gestor_ejemplo equis mundo_inicial =
     (Inl (ValueError (lit ''Nombre inv'' @ [0xE1] @ lit ''lido'')), mundo_inicial)"
  using invalid_member_aborts [OF nombre_invalido [of equis, OF disjI2 [OF strip_equis]],
      of gestor_ejemplo mundo_inicial]
  by (simp add: gestor_ejemplo_def)

section \<open>Facts about the formats\<close>

lemma lit_less_256: "x \<in> set (lit cs) \<Longrightarrow> x < 256"
proof -
  have "of_char c < (256::nat)" for c
    using of_char_mod_256 [of c, where ?'a = nat] by (metis mod_less_divisor zero_less_numeral)
  then show "x \<in> set (lit cs) \<Longrightarrow> x < 256" by (auto simp add: lit_def)
qed

lemma digitos_range: "x \<in> set (digitos n) \<Longrightarrow> 48 \<le> x \<and> x \<le> 57"
proof (induction n arbitrary: x rule: digitos.induct)
  case (1 n)
  show ?case
  proof (cases "n < 10")
    case True
    with "1.prems" show ?thesis by (simp add: digitos.simps [of n])
  next
    case False
    with "1.prems" have "x \<in> set (digitos (n div 10)) \<or> x = 48 + n mod 10"
      by (auto simp add: digitos.simps [of n])
    then show ?thesis
    proof
      assume "x \<in> set (digitos (n div 10))"
      with "1.IH" False show ?thesis by simp
    next
      assume "x = 48 + n mod 10"
      moreover have "n mod 10 < 10" by simp
      ultimately show ?thesis by linarith
    qed
  qed
qed

lemma zfill_range: "x \<in> set (zfill k n) \<Longrightarrow> 48 \<le> x \<and> x \<le> 57"
  by (auto simp add: zfill_def dest: digitos_range)

lemma isoformat_range: "x \<in> set (isoformat d) \<Longrightarrow> 45 \<le> x \<and> x \<le> 57"
  by (auto simp add: isoformat_def lit_def dest!: zfill_range)


lemma format_2f_range: "x \<in> set (format_2f c) \<Longrightarrow> 45 \<le> x \<and> x \<le> 110"
  by (cases c)
    (auto simp add: Let_def lit_def dest!: zfill_range digitos_range split: if_splits)







section \<open>Facts about the codecs\<close>

text \<open>A strict codec raises exactly when the text has a character it cannot encode.\<close>

lemma codec_error_None:
  "codec_error codec reason bad s = None \<longleftrightarrow> (\<forall>x\<in>set s. \<not> bad x)"
proof
  assume "codec_error codec reason bad s = None"
  then have "dropWhile (\<lambda>c. \<not> bad c) s = []"
    by (simp add: codec_error_def Let_def split: list.splits)
  then show "\<forall>x\<in>set s. \<not> bad x" by simp
next
  assume "\<forall>x\<in>set s. \<not> bad x"
  then have dw: "dropWhile (\<lambda>c. \<not> bad c) s = []" by simp
  show "codec_error codec reason bad s = None" unfolding codec_error_def dw by simp
qed

lemma codec_error_Some:
  assumes "\<exists>x\<in>set s. bad x"
  shows "\<exists>c i j. codec_error codec reason bad s = Some (encode_error codec reason c i j)"
proof -
  from assms have "dropWhile (\<lambda>c. \<not> bad c) s \<noteq> []" by simp
  then obtain c rest where dw: "dropWhile (\<lambda>c. \<not> bad c) s = c # rest"
    by (cases "dropWhile (\<lambda>c. \<not> bad c) s") auto
  show ?thesis unfolding codec_error_def dw by (simp add: Let_def, blast)
qed

lemma codec_error_at:
  assumes "\<forall>x\<in>set pre. \<not> bad x" "bad c" "\<not> bad d"
  shows "codec_error codec reason bad (pre @ c # d # rest) =
     Some (encode_error codec reason c (length pre) (length pre + 1))"
proof -
  from assms(1,2) have dw: "dropWhile (\<lambda>c. \<not> bad c) (pre @ c # d # rest) = c # d # rest"
    by (simp add: dropWhile_append2)
  from assms(1,2) have tw: "takeWhile (\<lambda>c. \<not> bad c) (pre @ c # d # rest) = pre"
    by (simp add: takeWhile_append2)
  show ?thesis unfolding codec_error_def dw tw using assms(3) by (simp add: Let_def)
qed

text \<open>The text of the exception is made of characters below 256.\<close>

lemma hexdigit_less: "hexdigit (n mod 16) < 256"
proof -
  have "n mod 16 < 16" by simp
  then have "48 + n mod 16 < 256" "87 + n mod 16 < 256" by linarith+
  then show ?thesis unfolding hexdigit_def by presburger
qed

lemma hex_less: "x \<in> set (hex k c) \<Longrightarrow> x < 256"
  by (auto simp add: hex_def hexdigit_less)

lemma escape_less: "x \<in> set (escape c) \<Longrightarrow> x < 256"
  by (auto simp add: escape_def dest: hex_less lit_less_256 split: if_splits)

lemma digitos_less: "x \<in> set (digitos n) \<Longrightarrow> x < 256"
  using digitos_range [of x n] by simp

lemma encode_error_text:
  assumes "\<forall>x\<in>set codec. x < 256" "\<forall>x\<in>set reason. x < 256"
    and "x \<in> set (str_exc (encode_error codec reason c i j))"
  shows "x < 256"
  using assms
  by (auto simp add: encode_error_def dest: escape_less lit_less_256 digitos_less
      split: if_splits)

lemma surrogate_ge: "surrogate c \<Longrightarrow> 256 \<le> c"
  by (simp add: surrogate_def)

lemma utf8_error_None: "utf8_error s = None \<longleftrightarrow> (\<forall>x\<in>set s. \<not> surrogate x)"
  by (simp add: utf8_error_def codec_error_None)

lemma utf8_error_Some:
  assumes "\<exists>x\<in>set s. surrogate x"
  shows "\<exists>m. utf8_error s = Some (UnicodeEncodeError m) \<and> (\<forall>x\<in>set m. \<not> surrogate x)"
proof -
  from codec_error_Some [OF assms] obtain c i j where
    e: "utf8_error s =
      Some (encode_error (lit ''utf-8'') (lit ''surrogates not allowed'') c i j)"
    unfolding utf8_error_def by blast
  obtain m where m: "encode_error (lit ''utf-8'') (lit ''surrogates not allowed'') c i j =
      UnicodeEncodeError m"
    by (simp add: encode_error_def)
  have "x < 256" if "x \<in> set m" for x
  proof (rule encode_error_text [of "lit ''utf-8''" "lit ''surrogates not allowed''" x c i j])
    show "\<forall>x\<in>set (lit ''utf-8''). x < 256" by (auto dest: lit_less_256)
    show "\<forall>x\<in>set (lit ''surrogates not allowed''). x < 256" by (auto dest: lit_less_256)
    show "x \<in> set (str_exc (encode_error (lit ''utf-8'') (lit ''surrogates not allowed'') c i j))"
      using that by (simp add: m)
  qed
  then have "\<forall>x\<in>set m. \<not> surrogate x" using surrogate_ge by fastforce
  with e m show ?thesis by simp
qed

lemma ascii_error_None: "ascii_error s = None \<longleftrightarrow> (\<forall>x\<in>set s. x < 128)"
  by (auto simp add: ascii_error_def codec_error_None)

lemma ascii_error_Some: "\<exists>x\<in>set s. 128 \<le> x \<Longrightarrow> \<exists>e. ascii_error s = Some e"
  using codec_error_Some [of s "\<lambda>c. 128 \<le> c"] by (auto simp add: ascii_error_def)

lemma encode_utf8_Inr:
  assumes "\<forall>c\<in>set s. \<not> surrogate c"
  shows "encode_utf8 s = Inr (map of_nat (concat (map utf8_cp s)))"
  using assms by (simp add: encode_utf8_def utf8_error_None [THEN iffD2])

lemma encode_utf8_Inl:
  assumes "\<exists>x\<in>set s. surrogate x"
  shows "\<exists>m. encode_utf8 s = Inl (UnicodeEncodeError m)"
  using utf8_error_Some [OF assms] by (auto simp add: encode_utf8_def)

lemma encode_utf8_Inr_iff: "(\<exists>b. encode_utf8 s = Inr b) \<longleftrightarrow> (\<forall>x\<in>set s. \<not> surrogate x)"
proof
  assume "\<exists>b. encode_utf8 s = Inr b"
  then have "utf8_error s = None" by (auto simp add: encode_utf8_def split: option.splits)
  then show "\<forall>x\<in>set s. \<not> surrogate x" by (simp add: utf8_error_None)
next
  assume "\<forall>x\<in>set s. \<not> surrogate x"
  then show "\<exists>b. encode_utf8 s = Inr b" by (simp add: encode_utf8_Inr)
qed








text \<open>What the decoder returns has no surrogate in it.\<close>

lemma decode_nat_no_surrogate:
  "decode_nat bs = Some t \<Longrightarrow> x \<in> set t \<Longrightarrow> \<not> surrogate x"
proof (induction bs arbitrary: t rule: decode_nat.induct)
  case 1
  then show ?case by simp
next
  case (2 b0 bs)
  consider (a) "b0 < 0x80" | (b) "0xC0 \<le> b0" "b0 < 0xE0" | (c) "0xE0 \<le> b0" "b0 < 0xF0"
    | (d) "0xF0 \<le> b0" "b0 < 0xF8" | (e) "0x80 \<le> b0" "b0 < 0xC0" | (f) "0xF8 \<le> b0"
    by linarith
  then show ?case
  proof cases
    case a
    with "2.prems"(1) obtain t' where t': "decode_nat bs = Some t'" "t = b0 # t'" by auto
    have "\<not> surrogate b0" using a by (simp add: surrogate_def)
    with "2.IH"(1) [OF a t'(1)] t'(2) "2.prems"(2) show ?thesis by auto
  next
    case b
    with "2.prems"(1) obtain b1 r t' where
      bs: "bs = b1 # r" and c1: "cont b1" "0x80 \<le> (b0 - 0xC0) * 64 + (b1 - 0x80)" and
      t': "decode_nat r = Some t'" "t = ((b0 - 0xC0) * 64 + (b1 - 0x80)) # t'"
      by (auto split: list.splits if_splits)
    have "b0 - 0xC0 \<le> 31" using b by simp
    then have "(b0 - 0xC0) * 64 \<le> 31 * 64" by (rule mult_le_mono1)
    moreover have "b1 - 0x80 < 64" using c1(1) unfolding cont_def by linarith
    ultimately have "(b0 - 0xC0) * 64 + (b1 - 0x80) < 0xD800" by linarith
    then have "\<not> surrogate ((b0 - 0xC0) * 64 + (b1 - 0x80))"
      by (simp add: surrogate_def)
    moreover have "x \<in> set t' \<Longrightarrow> \<not> surrogate x"
      using "2.IH"(2) [of b1 r t'] b bs c1 t'(1) by simp
    ultimately show ?thesis using t'(2) "2.prems"(2) by auto
  next
    case c
    with "2.prems"(1) obtain b1 b2 r t' where
      bs: "bs = b1 # b2 # r" and c1: "cont b1" "cont b2"
        "0x800 \<le> (b0 - 0xE0) * 4096 + (b1 - 0x80) * 64 + (b2 - 0x80)"
        "\<not> surrogate ((b0 - 0xE0) * 4096 + (b1 - 0x80) * 64 + (b2 - 0x80))" and
      t': "decode_nat r = Some t'" "t = ((b0 - 0xE0) * 4096 + (b1 - 0x80) * 64 + (b2 - 0x80)) # t'"
      by (auto split: list.splits if_splits)
    have "x \<in> set t' \<Longrightarrow> \<not> surrogate x"
      using "2.IH"(3) [of b1 "b2 # r" b2 r t'] c bs c1 t'(1) by simp
    then show ?thesis using c1(4) t'(2) "2.prems"(2) by auto
  next
    case d
    with "2.prems"(1) obtain b1 b2 b3 r t' where
      bs: "bs = b1 # b2 # b3 # r" and c1: "cont b1" "cont b2" "cont b3"
        "0x10000 \<le> (b0 - 0xF0) * 262144 + (b1 - 0x80) * 4096 + (b2 - 0x80) * 64 + (b3 - 0x80)"
        "(b0 - 0xF0) * 262144 + (b1 - 0x80) * 4096 + (b2 - 0x80) * 64 + (b3 - 0x80) < 0x110000"
        and
      t': "decode_nat r = Some t'"
        "t = ((b0 - 0xF0) * 262144 + (b1 - 0x80) * 4096 + (b2 - 0x80) * 64 + (b3 - 0x80)) # t'"
      by (auto split: list.splits if_splits)
    have "\<not> surrogate ((b0 - 0xF0) * 262144 + (b1 - 0x80) * 4096 + (b2 - 0x80) * 64 + (b3 - 0x80))"
      using c1(4) by (simp add: surrogate_def)
    moreover have "x \<in> set t' \<Longrightarrow> \<not> surrogate x"
      using "2.IH"(4) [of b1 "b2 # b3 # r" b2 "b3 # r" b3 r t'] d bs c1 t'(1) by simp
    ultimately show ?thesis using t'(2) "2.prems"(2) by auto
  next
    case e
    with "2.prems"(1) show ?thesis by simp
  next
    case f
    with "2.prems"(1) show ?thesis by simp
  qed
qed

lemma decode_utf8_no_surrogate:
  "decode_utf8 b = Some t \<Longrightarrow> \<forall>x\<in>set t. \<not> surrogate x"
  unfolding decode_utf8_def using decode_nat_no_surrogate by blast

section \<open>Facts about print\<close>

lemma print_stdout_store [simp]: "store (snd (print_stdout s w)) = store w"
  by (simp add: print_stdout_def split: option.splits)

lemma print_stdout_falla [simp]: "stdout_falla (snd (print_stdout s w)) = stdout_falla w"
  by (simp add: print_stdout_def split: option.splits)

lemma print_stdout_Inr:
  "stdout_falla w (stdout w) s = None \<Longrightarrow>
   print_stdout s w = (Inr (), w\<lparr>stdout := stdout w @ [s]\<rparr>)"
  by (simp add: print_stdout_def)

lemma print_utf8_Inr:
  assumes "stdout_falla w = utf8_estricto" "\<forall>x\<in>set s. \<not> surrogate x"
  shows "print_stdout s w = (Inr (), w\<lparr>stdout := stdout w @ [s]\<rparr>)"
  using assms by (simp add: print_stdout_def utf8_estricto_def utf8_error_None [THEN iffD2])

lemma print_utf8_Inl:
  assumes "stdout_falla w = utf8_estricto" "\<exists>x\<in>set s. surrogate x"
  shows "\<exists>m. print_stdout s w = (Inl (UnicodeEncodeError m), w) \<and> (\<forall>x\<in>set m. \<not> surrogate x)"
  using utf8_error_Some [OF assms(2)] assms(1)
  by (auto simp add: print_stdout_def utf8_estricto_def)

lemma print_ascii_Inr:
  assumes "stdout_falla w = ascii_estricto" "\<forall>x\<in>set s. x < 128"
  shows "print_stdout s w = (Inr (), w\<lparr>stdout := stdout w @ [s]\<rparr>)"
  using assms by (simp add: print_stdout_def ascii_estricto_def ascii_error_None [THEN iffD2])

lemma print_ascii_Inl:
  assumes "stdout_falla w = ascii_estricto" "\<exists>x\<in>set s. 128 \<le> x"
  shows "\<exists>e. print_stdout s w = (Inl e, w)"
  using ascii_error_Some [OF assms(2)] assms(1)
  by (auto simp add: print_stdout_def ascii_estricto_def)

lemma print_ascii_at:
  assumes "stdout_falla w = ascii_estricto" "\<forall>x\<in>set pre. x < 128" "128 \<le> c" "d < 128"
  shows "print_stdout (pre @ c # d # rest) w =
     (Inl (encode_error (lit ''ascii'') (lit ''ordinal not in range(128)'') c (length pre)
        (length pre + 1)), w)"
proof -
  have "ascii_error (pre @ c # d # rest) =
      Some (encode_error (lit ''ascii'') (lit ''ordinal not in range(128)'') c (length pre)
        (length pre + 1))"
    unfolding ascii_error_def using assms(2-4) by (intro codec_error_at) auto
  with assms(1) show ?thesis by (simp add: print_stdout_def ascii_estricto_def)
qed

lemma print_utf8_at:
  assumes "stdout_falla w = utf8_estricto" "\<forall>x\<in>set pre. \<not> surrogate x" "surrogate c"
    "\<not> surrogate d"
  shows "print_stdout (pre @ c # d # rest) w =
     (Inl (encode_error (lit ''utf-8'') (lit ''surrogates not allowed'') c (length pre)
        (length pre + 1)), w)"
proof -
  have "utf8_error (pre @ c # d # rest) =
      Some (encode_error (lit ''utf-8'') (lit ''surrogates not allowed'') c (length pre)
        (length pre + 1))"
    unfolding utf8_error_def using assms(2-4) by (intro codec_error_at) auto
  with assms(1) show ?thesis by (simp add: print_stdout_def utf8_estricto_def)
qed

lemma lit_no_surrogate: "x \<in> set (lit cs) \<Longrightarrow> \<not> surrogate x"
  using lit_less_256 surrogate_ge by fastforce

lemma digitos_no_surrogate: "x \<in> set (digitos n) \<Longrightarrow> \<not> surrogate x"
  using digitos_less surrogate_ge by fastforce

lemma format_2f_no_surrogate: "x \<in> set (format_2f c) \<Longrightarrow> \<not> surrogate x"
  using format_2f_range surrogate_ge by fastforce

lemma isoformat_no_surrogate: "x \<in> set (isoformat d) \<Longrightarrow> \<not> surrogate x"
  using isoformat_range surrogate_ge by fastforce

lemma small_no_surrogate: "x < 256 \<Longrightarrow> \<not> surrogate x"
  using surrogate_ge by fastforce

section \<open>The console printer\<close>

lemma mundo_inicial_utf8: "stdout_falla mundo_inicial = utf8_estricto"
  by (simp add: mundo_inicial_def)

lemma mundo_ascii_ascii: "stdout_falla mundo_ascii = ascii_estricto"
  by (simp add: mundo_ascii_def)

lemma cabecera_no_surrogate:
  "\<forall>x\<in>set (lit ''[ConsolePrinter] Imprimiendo carn'' @ [0xE9] @ lit '':'' @ [0x0A]).
     \<not> surrogate x"
  by (auto simp add: small_no_surrogate dest: lit_no_surrogate)

lemma binario_no_surrogate:
  "\<forall>x\<in>set (lit ''[ConsolePrinter] (binario) '' @ digitos n @ lit '' bytes''). \<not> surrogate x"
  by (auto dest: lit_no_surrogate digitos_no_surrogate)

lemma ConsolePrinter_utf8:
  assumes "stdout_falla w = utf8_estricto"
  shows "ConsolePrinter_imprimir carcarn w =
     (Inr (),
      w\<lparr>stdout := stdout w @
          [lit ''[ConsolePrinter] Imprimiendo carn'' @ [0xE9] @ lit '':'' @ [0x0A],
           case decode_utf8 carcarn of
             Some texto \<Rightarrow> texto
           | None \<Rightarrow> lit ''[ConsolePrinter] (binario) '' @ digitos (length carcarn) @
                       lit '' bytes'']\<rparr>)"
proof -
  let ?h = "lit ''[ConsolePrinter] Imprimiendo carn'' @ [0xE9] @ lit '':'' @ [0x0A]"
  let ?w1 = "w\<lparr>stdout := stdout w @ [?h]\<rparr>"
  have h: "print_stdout ?h w = (Inr (), ?w1)"
    by (rule print_utf8_Inr [OF assms cabecera_no_surrogate])
  have u1: "stdout_falla ?w1 = utf8_estricto" using assms by simp
  show ?thesis
  proof (cases "decode_utf8 carcarn")
    case None
    have "print_stdout (lit ''[ConsolePrinter] (binario) '' @ digitos (length carcarn) @
        lit '' bytes'') ?w1 =
        (Inr (), ?w1\<lparr>stdout := stdout ?w1 @ [lit ''[ConsolePrinter] (binario) '' @
          digitos (length carcarn) @ lit '' bytes'']\<rparr>)"
      by (rule print_utf8_Inr [OF u1 binario_no_surrogate])
    with None h show ?thesis
      by (simp add: ConsolePrinter_imprimir_def luego_def)
  next
    case (Some texto)
    have "print_stdout texto ?w1 = (Inr (), ?w1\<lparr>stdout := stdout ?w1 @ [texto]\<rparr>)"
      by (rule print_utf8_Inr [OF u1 decode_utf8_no_surrogate [OF Some]])
    with Some h show ?thesis
      by (simp add: ConsolePrinter_imprimir_def luego_def capturar_def)
  qed
qed

lemma cabecera_split:
  "lit ''[ConsolePrinter] Imprimiendo carn'' @ [0xE9] @ lit '':'' @ [0x0A] =
   lit ''[ConsolePrinter] Imprimiendo carn'' @ 0xE9 # 0x3A # [0x0A]"
  by (simp add: lit_def)

lemma linea_error_imprimir_split:
  "linea_error_imprimir e =
   lit ''[GestorCarne] Error imprimiendo carn'' @ 0xE9 # 0x3A # (0x20 # str_exc e)"
  by (simp add: linea_error_imprimir_def lit_def)

lemma linea_error_enviar_split:
  "linea_error_enviar e =
   lit ''[GestorCarne] Error enviando notificaci'' @ 0xF3 # 0x6E # (0x3A # 0x20 # str_exc e)"
  by (simp add: linea_error_enviar_def lit_def)

lemma ConsolePrinter_ascii:
  assumes "stdout_falla w = ascii_estricto"
  shows "ConsolePrinter_imprimir carcarn w =
     (Inl (encode_error (lit ''ascii'') (lit ''ordinal not in range(128)'') 0xE9 33 34), w)"
proof -
  have pre: "\<forall>x\<in>set (lit ''[ConsolePrinter] Imprimiendo carn''). x < 128"
    by (simp add: lit_def)
  have len: "length (lit ''[ConsolePrinter] Imprimiendo carn'') = 33"
    by (simp add: lit_def)
  from print_ascii_at [OF assms pre, of "0xE9" "0x3A" "[0x0A]"]
  have "print_stdout (lit ''[ConsolePrinter] Imprimiendo carn'' @ 0xE9 # 0x3A # [0x0A]) w =
      (Inl (encode_error (lit ''ascii'') (lit ''ordinal not in range(128)'') 0xE9 33 34), w)"
    unfolding len by simp
  then show ?thesis
    unfolding ConsolePrinter_imprimir_def cabecera_split by (simp add: luego_def)
qed

lemma try_imprimir_ascii:
  assumes "stdout_falla w = ascii_estricto" "printer g = ConsolePrinter_imprimir"
  shows "try_imprimir g carcarn w =
     (Inl (encode_error (lit ''ascii'') (lit ''ordinal not in range(128)'') 0xE9 36 37), w)"
proof -
  let ?e = "encode_error (lit ''ascii'') (lit ''ordinal not in range(128)'') 0xE9 33 34"
  have pre: "\<forall>x\<in>set (lit ''[GestorCarne] Error imprimiendo carn''). x < 128"
    by (simp add: lit_def)
  have len: "length (lit ''[GestorCarne] Error imprimiendo carn'') = 36"
    by (simp add: lit_def)
  from print_ascii_at [OF assms(1) pre, of "0xE9" "0x3A" "0x20 # str_exc ?e"]
  have "print_stdout (linea_error_imprimir ?e) w =
      (Inl (encode_error (lit ''ascii'') (lit ''ordinal not in range(128)'') 0xE9 36 37), w)"
    unfolding len linea_error_imprimir_split by simp
  then show ?thesis
    by (simp add: try_imprimir_def capturar_def assms(2) ConsolePrinter_ascii [OF assms(1)])
qed

text \<open>
  C10, as stated, fails: on a console that encodes as ASCII the header cannot be
  printed, and since that \<open>print\<close> stands before the \<open>try\<close>, \<open>imprimir\<close> raises (here for
  the one byte \<open>A\<close>). The orchestrator's handler is reached; its own \<open>print\<close> raises in turn.
\<close>

theorem console_printer_raises_counterexample:
  "ConsolePrinter_imprimir [0x41] mundo_ascii =
     (Inl (encode_error (lit ''ascii'') (lit ''ordinal not in range(128)'') 0xE9 33 34),
      mundo_ascii) \<and>
   try_imprimir gestor_ejemplo [0x41] mundo_ascii =
     (Inl (encode_error (lit ''ascii'') (lit ''ordinal not in range(128)'') 0xE9 36 37),
      mundo_ascii)"
proof -
  have "printer gestor_ejemplo = ConsolePrinter_imprimir" by (simp add: gestor_ejemplo_def)
  then show ?thesis
    by (simp add: ConsolePrinter_ascii [OF mundo_ascii_ascii]
        try_imprimir_ascii [OF mundo_ascii_ascii])
qed

text \<open>
  C10, as amended. On a console that encodes as UTF-8, \<open>ConsolePrinter.imprimir\<close>
  returns normally for every byte string: the header is printed, then the decoded text,
  or, when the bytes are not UTF-8, the number of bytes. Hence, with the console
  printer, the \<open>try\<close> around the printer in \<open>emitir_carne\<close> never reaches its handler there:
  it does what the printer does.
\<close>

theorem console_printer_never_raises:
  assumes "stdout_falla w = utf8_estricto"
  shows "fst (ConsolePrinter_imprimir carcarn w) = Inr () \<and>
     (decode_utf8 carcarn = None \<longrightarrow>
        snd (ConsolePrinter_imprimir carcarn w) =
          w\<lparr>stdout := stdout w @
            [lit ''[ConsolePrinter] Imprimiendo carn'' @ [0xE9] @ lit '':'' @ [0x0A],
             lit ''[ConsolePrinter] (binario) '' @ digitos (length carcarn) @ lit '' bytes'']\<rparr>) \<and>
     (printer g = ConsolePrinter_imprimir \<longrightarrow>
        try_imprimir g carcarn w = ConsolePrinter_imprimir carcarn w)"
  by (simp add: ConsolePrinter_utf8 [OF assms] try_imprimir_def capturar_def)

lemma decode_ff: "decode_utf8 [0xFF, 0x41] = None"
  by (simp add: decode_utf8_def)

theorem console_printer_never_raises_witness:
  "fst (ConsolePrinter_imprimir [0xFF, 0x41] mundo_inicial) = Inr () \<and>
   stdout (snd (ConsolePrinter_imprimir [0xFF, 0x41] mundo_inicial)) =
     [lit ''[ConsolePrinter] Imprimiendo carn'' @ [0xE9] @ lit '':'' @ [0x0A],
      lit ''[ConsolePrinter] (binario) 2 bytes''] \<and>
   try_imprimir gestor_ejemplo [0xFF, 0x41] mundo_inicial =
     ConsolePrinter_imprimir [0xFF, 0x41] mundo_inicial"
  using console_printer_never_raises [OF mundo_inicial_utf8, of "[0xFF, 0x41]" gestor_ejemplo]
    decode_ff
  by (simp add: gestor_ejemplo_def mundo_inicial_def digitos.simps lit_def)

section \<open>The card generator\<close>

text \<open>
  C7. Rendering is deterministic: two calls of the card generator with the same member
  (registration date included) and the same fee give the same outcome, the same bytes
  or the same exception, in whatever two states they are made: whatever the clock, the
  pending identifiers, the console, its encoding and the store are. A call leaves the
  state as it found it. (Neither \<open>{costo:.2f}\<close> nor \<open>isoformat\<close> reads the locale.)
\<close>

theorem rendering_deterministic:
  "u1 = u2 \<and> c1 = c2 \<longrightarrow>
     fst (SimpleCardGenerator_generar u1 c1 w1) = fst (SimpleCardGenerator_generar u2 c2 w2) \<and>
     snd (SimpleCardGenerator_generar u1 c1 w1) = w1"
  by (simp add: SimpleCardGenerator_generar_def)

text \<open>
  Two states with different clocks, pending identifiers and consoles: the generator
  gives the same outcome in both, while \<open>Usuario.nuevo\<close>, which reads the clock, does not.
\<close>

theorem rendering_deterministic_witness:
  "fst (SimpleCardGenerator_generar ana (Finito 10) mundo_inicial) =
   fst (SimpleCardGenerator_generar ana (Finito 10)
          (mundo_ascii\<lparr>hoy := \<lparr>year = 2025, month = 1, day = 1\<rparr>,
             uuid4_siguientes := (\<lambda>n. lit ''id''), stdout := [lit ''x'']\<rparr>)) \<and>
   fst (nuevo (lit ''Ana Torres'') (lit ''ana@uni.edu'') (lit ''docente'') mundo_inicial) \<noteq>
   fst (nuevo (lit ''Ana Torres'') (lit ''ana@uni.edu'') (lit ''docente'')
          (mundo_ascii\<lparr>hoy := \<lparr>year = 2025, month = 1, day = 1\<rparr>,
             uuid4_siguientes := (\<lambda>n. lit ''id''), stdout := [lit ''x'']\<rparr>))"
  using rendering_deterministic [of ana ana "Finito 10" "Finito 10" mundo_inicial
      "mundo_ascii\<lparr>hoy := \<lparr>year = 2025, month = 1, day = 1\<rparr>,
         uuid4_siguientes := (\<lambda>n. lit ''id''), stdout := [lit ''x'']\<rparr>"]
  by (simp add: nuevo_def mundo_inicial_def mundo_ascii_def)

section \<open>Rendering the card\<close>


lemma contenido_no_surrogate:
  assumes "\<forall>x\<in>set (nombre u @ id_usuario u @ tipo u). \<not> surrogate x"
  shows "\<forall>x\<in>set (contenido u c). \<not> surrogate x"
  using assms
  by (auto simp add: contenido_def surrogate_def [of 10]
      dest: lit_no_surrogate format_2f_no_surrogate isoformat_no_surrogate)

lemma contenido_surrogate:
  assumes "\<exists>x\<in>set (nombre u @ id_usuario u @ tipo u). surrogate x"
  shows "\<exists>x\<in>set (contenido u c). surrogate x"
  using assms by (auto simp add: contenido_def)


lemma tipos_no_surrogate: "t \<in> set tipos \<Longrightarrow> x \<in> set t \<Longrightarrow> \<not> surrogate x"
  by (auto simp add: tipos_iff dest: lit_no_surrogate)

lemma generar_Inr:
  assumes "\<forall>x\<in>set (nombre u @ id_usuario u @ tipo u). \<not> surrogate x"
  shows "SimpleCardGenerator_generar u c w =
     (Inr (map of_nat (concat (map utf8_cp (contenido u c)))), w)"
  unfolding SimpleCardGenerator_generar_def
  by (simp add: encode_utf8_Inr [OF contenido_no_surrogate [OF assms]])

lemma generar_Inl:
  assumes "\<exists>x\<in>set (nombre u @ id_usuario u @ tipo u). surrogate x"
  shows "\<exists>m. SimpleCardGenerator_generar u c w = (Inl (UnicodeEncodeError m), w)"
  using encode_utf8_Inl [OF contenido_surrogate [OF assms, of c]]
  by (auto simp add: SimpleCardGenerator_generar_def)


lemma ana_no_surrogate: "\<forall>x\<in>set (nombre ana @ id_usuario ana @ tipo ana). \<not> surrogate x"
  by (simp add: ana_def lit_def surrogate_def)


lemma ana_strategy: "get_costo_strategy (tipo ana) = Inr CostoEstudiantePre"
  by (simp add: get_costo_strategy_cases ana_def)

lemma contenido_sustituto:
  "contenido sustituto c =
     (lit ''CARNE BIBLIOTECA UNSCH'' @ [0x0A] @ lit ''Nombre: '') @ 0xD800 # 0x61 #
     (lit ''b'' @ [0x0A] @ lit ''ID: 0003'' @ [0x0A] @ lit ''Tipo: docente'' @ [0x0A] @
      lit ''Costo: S/ '' @ format_2f c @ [0x0A] @
      lit ''Fecha: '' @ isoformat (fecha_registro sustituto) @ [0x0A])"
  by (simp add: contenido_def sustituto_def lit_def)

lemma generar_sustituto:
  "SimpleCardGenerator_generar sustituto c w =
     (Inl (encode_error (lit ''utf-8'') (lit ''surrogates not allowed'') 0xD800 31 32), w)"
proof -
  have pre: "\<forall>x\<in>set (lit ''CARNE BIBLIOTECA UNSCH'' @ [0x0A] @ lit ''Nombre: ''). \<not> surrogate x"
    by (auto simp add: surrogate_def dest: lit_less_256)
  have len: "length (lit ''CARNE BIBLIOTECA UNSCH'' @ [0x0A] @ lit ''Nombre: '') = 31"
    by (simp add: lit_def)
  have "surrogate 0xD800" "\<not> surrogate 0x61" by (simp_all add: surrogate_def)
  from codec_error_at [of _ surrogate, OF pre this]
  have "utf8_error (contenido sustituto c) =
      Some (encode_error (lit ''utf-8'') (lit ''surrogates not allowed'') 0xD800 31 32)"
    unfolding utf8_error_def contenido_sustituto len by simp
  then show ?thesis by (simp add: SimpleCardGenerator_generar_def encode_utf8_def)
qed

lemma validar_sustituto: "UsuarioValidator_validar sustituto = Inr ()"
  by (simp add: UsuarioValidator_validar_def sustituto_def lit_def strip_def isspace_def tipos_def)








section \<open>The orchestrator after validation\<close>

lemma gestor_ejemplo_con:
  "gestor_ejemplo =
     gestor_con
       (EmailNotifier_enviar \<lparr>smtp_server = lit ''smtp.miuniversidad.edu'', smtp_port = 587\<rparr>)
       ConsolePrinter_imprimir"
  by (simp add: gestor_con_def gestor_ejemplo_def)

lemma emitir_carne_gestor_con:
  assumes "UsuarioValidator_validar u = Inr ()"
    and "get_costo_strategy (tipo u) = Inr s"
  shows "emitir_carne (gestor_con n p) u w =
     (case SimpleCardGenerator_generar u (calcular s u) w of
        (Inl e, w0) \<Rightarrow> (Inl e, w0)
      | (Inr b, w0) \<Rightarrow>
          (case InMemoryRepository_guardar_usuario u (calcular s u) b w0 of
             (Inl e, w1) \<Rightarrow> (Inl e, w1)
           | (Inr _, w1) \<Rightarrow>
               (case try_enviar (gestor_con n p) u (calcular s u) b w1 of
                  (Inl e, w2) \<Rightarrow> (Inl e, w2)
                | (Inr _, w2) \<Rightarrow>
                    (case try_imprimir (gestor_con n p) b w2 of
                       (Inl e, w3) \<Rightarrow> (Inl e, w3)
                     | (Inr _, w3) \<Rightarrow>
                         (Inr \<lparr>usuario_id = id_usuario u, costo_resultado = calcular s u\<rparr>,
                          w3)))))"
  using assms
  by (simp add: emitir_carne_def gestor_con_def gestor_ejemplo_def puro_def luego_def Let_def
      split: prod.splits sum.splits)

lemma capturar_registra:
  assumes "se_registra (m w) linea"
  shows "capturar m (\<lambda>e. print_stdout (linea e)) w = (Inr (), estado_tras (m w) linea)"
proof (cases "m w")
  case (Pair r w')
  with assms show ?thesis
    by (cases r) (simp_all add: capturar_def se_registra_def estado_tras_def print_stdout_Inr)
qed

lemma store_estado_tras:
  "store (estado_tras r linea) = store (snd r)"
  by (cases r) (simp add: estado_tras_def split: sum.splits)

lemma store_guardar:
  "store (snd (InMemoryRepository_guardar_usuario u c b w)) =
     store w @ [\<lparr>usuario = u, costo = c, carne = b\<rparr>]"
  by (simp add: InMemoryRepository_guardar_usuario_def Let_def)

lemma guardar_utf8:
  assumes "stdout_falla w = utf8_estricto" "\<forall>x\<in>set (id_usuario u). \<not> surrogate x"
  shows "InMemoryRepository_guardar_usuario u c b w =
     (Inr (),
      w\<lparr>store := store w @ [\<lparr>usuario = u, costo = c, carne = b\<rparr>],
        stdout := stdout w @
          [lit ''[InMemoryRepository] Usuario '' @ id_usuario u @
           lit '' guardado (mem). Total registros: '' @ digitos (Suc (length (store w)))]\<rparr>)"
proof -
  let ?w1 = "w\<lparr>store := store w @ [\<lparr>usuario = u, costo = c, carne = b\<rparr>]\<rparr>"
  let ?l = "lit ''[InMemoryRepository] Usuario '' @ id_usuario u @
      lit '' guardado (mem). Total registros: '' @ digitos (Suc (length (store w)))"
  have "stdout_falla ?w1 = utf8_estricto" using assms(1) by simp
  moreover have "\<forall>x\<in>set ?l. \<not> surrogate x"
    using assms(2) by (auto dest: lit_no_surrogate digitos_no_surrogate)
  ultimately have "print_stdout ?l ?w1 = (Inr (), ?w1\<lparr>stdout := stdout ?w1 @ [?l]\<rparr>)"
    by (rule print_utf8_Inr)
  then show ?thesis by (simp add: InMemoryRepository_guardar_usuario_def Let_def)
qed

lemma guardar_ascii:
  assumes "stdout_falla w = ascii_estricto" "\<forall>x\<in>set (id_usuario u). x < 128"
  shows "InMemoryRepository_guardar_usuario u c b w =
     (Inr (),
      w\<lparr>store := store w @ [\<lparr>usuario = u, costo = c, carne = b\<rparr>],
        stdout := stdout w @
          [lit ''[InMemoryRepository] Usuario '' @ id_usuario u @
           lit '' guardado (mem). Total registros: '' @ digitos (Suc (length (store w)))]\<rparr>)"
proof -
  let ?w1 = "w\<lparr>store := store w @ [\<lparr>usuario = u, costo = c, carne = b\<rparr>]\<rparr>"
  let ?l = "lit ''[InMemoryRepository] Usuario '' @ id_usuario u @
      lit '' guardado (mem). Total registros: '' @ digitos (Suc (length (store w)))"
  have d: "x \<in> set (digitos n) \<Longrightarrow> x < 128" for x n using digitos_range [of x n] by simp
  have "stdout_falla ?w1 = ascii_estricto" using assms(1) by simp
  moreover have "\<forall>x\<in>set ?l. x < 128"
    using assms(2) by (auto simp add: lit_def dest: d)
  ultimately have "print_stdout ?l ?w1 = (Inr (), ?w1\<lparr>stdout := stdout ?w1 @ [?l]\<rparr>)"
    by (rule print_ascii_Inr)
  then show ?thesis by (simp add: InMemoryRepository_guardar_usuario_def Let_def)
qed

text \<open>
  C2, as stated, fails. The notifier raises an exception whose text has a lone
  surrogate in it; on a console that encodes as UTF-8 the handler's \<open>print\<close> of that text
  raises, and this exception leaves \<open>emitir_carne\<close>: the run does not complete, and the
  printer is not called (the console holds the repository's line and nothing else).
\<close>

theorem late_failures_swallowed_counterexample:
  "UsuarioValidator_validar ana = Inr () \<and>
   fst (emitir_carne (gestor_con notifier_sustituto ConsolePrinter_imprimir) ana mundo_inicial) =
     Inl (encode_error (lit ''utf-8'') (lit ''surrogates not allowed'') 0xD800 55 56) \<and>
   stdout (snd (emitir_carne (gestor_con notifier_sustituto ConsolePrinter_imprimir) ana
     mundo_inicial)) =
     [lit ''[InMemoryRepository] Usuario 0001 guardado (mem). Total registros: 1'']"
proof -
  let ?g = "gestor_con notifier_sustituto ConsolePrinter_imprimir"
  let ?b = "map of_nat (concat (map utf8_cp (contenido ana (Finito 10)))) :: bytes"
  let ?w1 = "mundo_inicial\<lparr>store := store mundo_inicial @
        [\<lparr>usuario = ana, costo = Finito 10, carne = ?b\<rparr>],
      stdout := stdout mundo_inicial @
        [lit ''[InMemoryRepository] Usuario '' @ id_usuario ana @
         lit '' guardado (mem). Total registros: '' @
         digitos (Suc (length (store mundo_inicial)))]\<rparr>"
  let ?e = "OtraExcepcion (lit ''no route to '' @ [0xD800] @ lit ''.example'')"
  have id: "\<forall>x\<in>set (id_usuario ana). \<not> surrogate x" using ana_no_surrogate by auto
  have g: "SimpleCardGenerator_generar ana (calcular CostoEstudiantePre ana) mundo_inicial =
      (Inr ?b, mundo_inicial)"
    using generar_Inr [OF ana_no_surrogate, of "Finito 10" mundo_inicial] by simp
  have r: "InMemoryRepository_guardar_usuario ana (calcular CostoEstudiantePre ana) ?b
      mundo_inicial = (Inr (), ?w1)"
    using guardar_utf8 [OF mundo_inicial_utf8 id, of "Finito 10" ?b] by simp
  have u1: "stdout_falla ?w1 = utf8_estricto" by (simp add: mundo_inicial_def)
  have split: "linea_error_enviar ?e =
      (lit ''[GestorCarne] Error enviando notificaci'' @ [0xF3] @ lit ''n: no route to '') @
      0xD800 # 0x2E # lit ''example''"
    by (simp add: linea_error_enviar_def lit_def)
  have pre: "\<forall>x\<in>set (lit ''[GestorCarne] Error enviando notificaci'' @ [0xF3] @
      lit ''n: no route to ''). \<not> surrogate x"
    by (auto simp add: small_no_surrogate dest: lit_no_surrogate)
  have len: "length (lit ''[GestorCarne] Error enviando notificaci'' @ [0xF3] @
      lit ''n: no route to '') = 55"
    by (simp add: lit_def)
  have s: "surrogate 0xD800" "\<not> surrogate 0x2E" by (simp_all add: surrogate_def)
  from print_utf8_at [OF u1 pre s, of "lit ''example''"]
  have h: "print_stdout (linea_error_enviar ?e) ?w1 =
      (Inl (encode_error (lit ''utf-8'') (lit ''surrogates not allowed'') 0xD800 55 56), ?w1)"
    unfolding len split by simp
  have t: "try_enviar ?g ana (calcular CostoEstudiantePre ana) ?b ?w1 =
      (Inl (encode_error (lit ''utf-8'') (lit ''surrogates not allowed'') 0xD800 55 56), ?w1)"
    using h by (simp add: try_enviar_def capturar_def gestor_con_def notifier_sustituto_def)
  have run: "emitir_carne ?g ana mundo_inicial =
      (Inl (encode_error (lit ''utf-8'') (lit ''surrogates not allowed'') 0xD800 55 56), ?w1)"
    unfolding emitir_carne_gestor_con [OF validar_ana ana_strategy] g
    by (simp only: prod.case sum.case r t)
  show ?thesis unfolding run
    by (simp add: validar_ana, simp add: mundo_inicial_def ana_def digitos.simps lit_def)
qed

text \<open>
  C2, as amended. Take a valid member whose card has been rendered and saved in the
  in-memory repository (the state is then \<open>w1\<close>), and any notifier \<open>n\<close> and printer \<open>p\<close> that
  leave the repository's store alone; they may raise or not. If the notifier returns,
  or raises and the handler's line can be printed, the run goes on in the state \<open>w2\<close>
  and the printer is called there; if the printer returns, or raises and the handler's
  line can be printed, \<open>emitir_carne\<close> completes. The returned dictionary and the store
  do not depend on \<open>n\<close> and \<open>p\<close>: they are those of a run without failures.
\<close>

theorem late_failures_swallowed:
  assumes "UsuarioValidator_validar u = Inr ()"
    and "get_costo_strategy (tipo u) = Inr s"
    and "SimpleCardGenerator_generar u (calcular s u) w = (Inr b, w)"
    and "InMemoryRepository_guardar_usuario u (calcular s u) b w = (Inr (), w1)"
    and "\<And>d a c x w. store (snd (n d a c x w)) = store w"
    and "\<And>x w. store (snd (p x w)) = store w"
    and "se_registra (n (correo u) asunto_carne (cuerpo_carne u (calcular s u)) (Some b) w1)
           linea_error_enviar"
    and "w2 = estado_tras (n (correo u) asunto_carne (cuerpo_carne u (calcular s u)) (Some b) w1)
           linea_error_enviar"
    and "se_registra (p b w2) linea_error_imprimir"
  shows "emitir_carne (gestor_con n p) u w =
       (Inr \<lparr>usuario_id = id_usuario u, costo_resultado = calcular s u\<rparr>,
        estado_tras (p b w2) linea_error_imprimir) \<and>
     store (estado_tras (p b w2) linea_error_imprimir) =
       store w @ [\<lparr>usuario = u, costo = calcular s u, carne = b\<rparr>]"
proof -
  let ?c = "calcular s u"
  let ?g = "gestor_con n p"
  have e: "try_enviar ?g u ?c b w1 = (Inr (), w2)"
    unfolding try_enviar_def assms(8)
    using capturar_registra
      [of "n (correo u) asunto_carne (cuerpo_carne u ?c) (Some b)" w1 linea_error_enviar,
        OF assms(7)]
    by (simp add: gestor_con_def)
  have i: "try_imprimir ?g b w2 = (Inr (), estado_tras (p b w2) linea_error_imprimir)"
    unfolding try_imprimir_def
    using capturar_registra [of "p b" w2 linea_error_imprimir, OF assms(9)]
    by (simp add: gestor_con_def)
  have run: "emitir_carne ?g u w =
      (Inr \<lparr>usuario_id = id_usuario u, costo_resultado = ?c\<rparr>,
       estado_tras (p b w2) linea_error_imprimir)"
    unfolding emitir_carne_gestor_con [OF assms(1,2)] assms(3)
    by (simp only: prod.case sum.case assms(4) e i)
  have "store w1 = store w @ [\<lparr>usuario = u, costo = ?c, carne = b\<rparr>]"
    using store_guardar [of u ?c b w] assms(4) by simp
  then have "store (estado_tras (p b w2) linea_error_imprimir) =
      store w @ [\<lparr>usuario = u, costo = ?c, carne = b\<rparr>]"
    by (simp add: store_estado_tras assms(5,6,8))
  with run show ?thesis by simp
qed

lemma utf8_acepta:
  "stdout_falla w = utf8_estricto \<Longrightarrow> \<forall>x\<in>set s. \<not> surrogate x \<Longrightarrow>
   stdout_falla w (stdout w) s = None"
  by (simp add: utf8_estricto_def utf8_error_None [THEN iffD2])

theorem late_failures_swallowed_witness:
  "fst (emitir_carne (gestor_con notifier_falla printer_falla) ana mundo_inicial) =
     Inr \<lparr>usuario_id = lit ''0001'', costo_resultado = Finito 10\<rparr> \<and>
   map usuario (store (snd (emitir_carne (gestor_con notifier_falla printer_falla) ana
     mundo_inicial))) = [ana] \<and>
   stdout (snd (emitir_carne (gestor_con notifier_falla printer_falla) ana mundo_inicial)) =
     [lit ''[InMemoryRepository] Usuario 0001 guardado (mem). Total registros: 1'',
      lit ''[GestorCarne] Error enviando notificaci'' @ [0xF3] @ lit ''n: smtp down'',
      lit ''[GestorCarne] Error imprimiendo carn'' @ [0xE9] @ lit '': out of paper'']"
proof -
  let ?b = "map of_nat (concat (map utf8_cp (contenido ana (Finito 10)))) :: bytes"
  let ?w1 = "mundo_inicial\<lparr>store := store mundo_inicial @
        [\<lparr>usuario = ana, costo = Finito 10, carne = ?b\<rparr>],
      stdout := stdout mundo_inicial @
        [lit ''[InMemoryRepository] Usuario '' @ id_usuario ana @
         lit '' guardado (mem). Total registros: '' @
         digitos (Suc (length (store mundo_inicial)))]\<rparr>"
  let ?n = "notifier_falla (correo ana) asunto_carne
      (cuerpo_carne ana (calcular CostoEstudiantePre ana)) (Some ?b) ?w1"
  let ?w2 = "estado_tras ?n linea_error_enviar"
  have id: "\<forall>x\<in>set (id_usuario ana). \<not> surrogate x" using ana_no_surrogate by auto
  have g: "SimpleCardGenerator_generar ana (calcular CostoEstudiantePre ana) mundo_inicial =
      (Inr ?b, mundo_inicial)"
    using generar_Inr [OF ana_no_surrogate, of "Finito 10" mundo_inicial] by simp
  have r: "InMemoryRepository_guardar_usuario ana (calcular CostoEstudiantePre ana) ?b
      mundo_inicial = (Inr (), ?w1)"
    using guardar_utf8 [OF mundo_inicial_utf8 id, of "Finito 10" ?b] by simp
  have n: "store (snd (notifier_falla d a c x w)) = store w" for d a c x w
    by (simp add: notifier_falla_def)
  have p: "store (snd (printer_falla x w)) = store w" for x w
    by (simp add: printer_falla_def)
  have u1: "stdout_falla ?w1 = utf8_estricto" by (simp add: mundo_inicial_def)
  have l1: "\<forall>x\<in>set (linea_error_enviar (OtraExcepcion (lit ''smtp down''))). \<not> surrogate x"
    by (auto simp add: linea_error_enviar_def small_no_surrogate dest: lit_no_surrogate)
  have l2: "\<forall>x\<in>set (linea_error_imprimir (OtraExcepcion (lit ''out of paper''))). \<not> surrogate x"
    by (auto simp add: linea_error_imprimir_def small_no_surrogate dest: lit_no_surrogate)
  have rn: "se_registra ?n linea_error_enviar"
    using utf8_acepta [OF u1 l1] by (simp add: se_registra_def notifier_falla_def)
  have w2: "?w2 = ?w1\<lparr>stdout := stdout ?w1 @
      [linea_error_enviar (OtraExcepcion (lit ''smtp down''))]\<rparr>"
    by (simp add: estado_tras_def notifier_falla_def)
  have u2: "stdout_falla ?w2 = utf8_estricto" unfolding w2 by (simp add: mundo_inicial_def)
  have rp: "se_registra (printer_falla ?b ?w2) linea_error_imprimir"
    using utf8_acepta [OF u2 l2] by (simp add: se_registra_def printer_falla_def)
  from late_failures_swallowed [of ana CostoEstudiantePre mundo_inicial ?b ?w1 notifier_falla
      printer_falla ?w2, OF validar_ana ana_strategy g r n p rn refl rp]
  have "emitir_carne (gestor_con notifier_falla printer_falla) ana mundo_inicial =
      (Inr \<lparr>usuario_id = id_usuario ana, costo_resultado = calcular CostoEstudiantePre ana\<rparr>,
       estado_tras (printer_falla ?b ?w2) linea_error_imprimir)"
    by simp
  then show ?thesis unfolding w2
    by (simp add: estado_tras_def printer_falla_def linea_error_enviar_def
        linea_error_imprimir_def mundo_inicial_def ana_def digitos.simps lit_def)
qed

section \<open>The example wiring\<close>

lemma take_no_surrogate:
  "\<forall>x\<in>set s. \<not> surrogate x \<Longrightarrow> \<forall>x\<in>set (take k s). \<not> surrogate x"
  by (meson in_set_takeD)

lemma cuerpo_no_surrogate:
  assumes "\<forall>x\<in>set (nombre u @ id_usuario u). \<not> surrogate x"
  shows "\<forall>x\<in>set (cuerpo_carne u c). \<not> surrogate x"
  using assms
  by (auto simp add: cuerpo_carne_def small_no_surrogate
      dest: lit_no_surrogate format_2f_no_surrogate)

lemma asunto_no_surrogate: "\<forall>x\<in>set asunto_carne. \<not> surrogate x"
  by (auto simp add: asunto_carne_def small_no_surrogate dest: lit_no_surrogate)

lemma linea_error_enviar_no_surrogate:
  "\<forall>x\<in>set (str_exc e). \<not> surrogate x \<Longrightarrow> \<forall>x\<in>set (linea_error_enviar e). \<not> surrogate x"
  by (auto simp add: linea_error_enviar_def small_no_surrogate dest: lit_no_surrogate)

text \<open>
  On a console that encodes as UTF-8, the \<open>try\<close> around the e-mail notifier always
  goes on: when the recipient's address has a surrogate in it, the notifier's \<open>print\<close>
  raises, and the handler prints the text of that exception, which has none.
\<close>

lemma try_enviar_utf8:
  assumes "stdout_falla w = utf8_estricto"
    and "\<forall>x\<in>set (nombre u @ id_usuario u). \<not> surrogate x"
    and "notifier g = EmailNotifier_enviar self"
  shows "\<exists>w'. try_enviar g u c b w = (Inr (), w') \<and> store w' = store w \<and>
     stdout_falla w' = utf8_estricto"
proof -
  let ?l1 = "lit ''[EmailNotifier] Enviando email a '' @ correo u @ lit '': '' @ asunto_carne @
      [0x0A] @ take 80 (cuerpo_carne u c) @ lit ''...''"
  let ?l2 = "lit ''[EmailNotifier] Attachment size: '' @ digitos (length b) @ lit '' bytes''"
  have rest: "\<forall>x\<in>set (lit ''[EmailNotifier] Enviando email a '' @ lit '': '' @ asunto_carne @
      [0x0A] @ take 80 (cuerpo_carne u c) @ lit ''...''). \<not> surrogate x"
    using asunto_no_surrogate take_no_surrogate [OF cuerpo_no_surrogate [OF assms(2), of c], of 80]
    by (auto simp add: small_no_surrogate dest: lit_no_surrogate)
  show ?thesis
  proof (cases "\<exists>x\<in>set (correo u). surrogate x")
    case True
    then have "\<exists>x\<in>set ?l1. surrogate x" by auto
    from print_utf8_Inl [OF assms(1) this] obtain m where
      m: "print_stdout ?l1 w = (Inl (UnicodeEncodeError m), w)" "\<forall>x\<in>set m. \<not> surrogate x"
      by blast
    have "\<forall>x\<in>set (linea_error_enviar (UnicodeEncodeError m)). \<not> surrogate x"
      using m(2) by (intro linea_error_enviar_no_surrogate) simp
    from print_utf8_Inr [OF assms(1) this]
    have "try_enviar g u c b w =
        (Inr (), w\<lparr>stdout := stdout w @ [linea_error_enviar (UnicodeEncodeError m)]\<rparr>)"
      using m(1)
      by (simp add: try_enviar_def capturar_def assms(3) EmailNotifier_enviar_def luego_def)
    with assms(1) show ?thesis by simp
  next
    case False
    with rest have "\<forall>x\<in>set ?l1. \<not> surrogate x" by auto
    from print_utf8_Inr [OF assms(1) this]
    have p1: "print_stdout ?l1 w = (Inr (), w\<lparr>stdout := stdout w @ [?l1]\<rparr>)" .
    have u1: "stdout_falla (w\<lparr>stdout := stdout w @ [?l1]\<rparr>) = utf8_estricto"
      using assms(1) by simp
    have "\<forall>x\<in>set ?l2. \<not> surrogate x"
      by (auto dest: lit_no_surrogate digitos_no_surrogate)
    from print_utf8_Inr [OF u1 this]
    have p2: "print_stdout ?l2 (w\<lparr>stdout := stdout w @ [?l1]\<rparr>) =
        (Inr (), w\<lparr>stdout := stdout w @ [?l1]\<rparr>\<lparr>stdout :=
           stdout (w\<lparr>stdout := stdout w @ [?l1]\<rparr>) @ [?l2]\<rparr>)" .
    show ?thesis
    proof (cases "b = []")
      case True
      with p1 have "try_enviar g u c b w = (Inr (), w\<lparr>stdout := stdout w @ [?l1]\<rparr>)"
        by (simp add: try_enviar_def capturar_def assms(3) EmailNotifier_enviar_def luego_def
            puro_def)
      with assms(1) show ?thesis by simp
    next
      case False
      with p1 p2 have "try_enviar g u c b w =
          (Inr (), w\<lparr>stdout := stdout w @ [?l1]\<rparr>\<lparr>stdout :=
             stdout (w\<lparr>stdout := stdout w @ [?l1]\<rparr>) @ [?l2]\<rparr>)"
        by (simp add: try_enviar_def capturar_def assms(3) EmailNotifier_enviar_def luego_def)
      with assms(1) show ?thesis by simp
    qed
  qed
qed

lemma try_imprimir_utf8:
  assumes "stdout_falla w = utf8_estricto" "printer g = ConsolePrinter_imprimir"
  shows "\<exists>w'. try_imprimir g b w = (Inr (), w') \<and> store w' = store w"
  using ConsolePrinter_utf8 [OF assms(1), of b]
  by (simp add: try_imprimir_def capturar_def assms(2))

text \<open>
  C6, as stated, fails, in two ways. The member whose name starts with the lone
  surrogate \<open>U+D800\<close> passes validation, yet \<open>emitir_carne\<close> raises the \<open>UnicodeEncodeError\<close>
  of the card generator and nothing is appended to the store. And on a console that
  encodes as ASCII the run for Ana Torres raises after the record has been stored: the
  notifier's \<open>print\<close> raises, and so does the handler's.
\<close>

theorem valid_member_not_issued_counterexample:
  "UsuarioValidator_validar sustituto = Inr () \<and>
   emitir_carne gestor_ejemplo sustituto mundo_inicial =
     (Inl (encode_error (lit ''utf-8'') (lit ''surrogates not allowed'') 0xD800 31 32),
      mundo_inicial) \<and>
   UsuarioValidator_validar ana = Inr () \<and>
   fst (emitir_carne gestor_ejemplo ana mundo_ascii) =
     Inl (encode_error (lit ''ascii'') (lit ''ordinal not in range(128)'') 0xF3 39 40) \<and>
   map usuario (store (snd (emitir_carne gestor_ejemplo ana mundo_ascii))) = [ana]"
proof -
  have s: "get_costo_strategy (tipo sustituto) = Inr CostoDocente"
    by (simp add: get_costo_strategy_cases sustituto_def lit_def)
  have a: "emitir_carne gestor_ejemplo sustituto mundo_inicial =
      (Inl (encode_error (lit ''utf-8'') (lit ''surrogates not allowed'') 0xD800 31 32),
       mundo_inicial)"
    unfolding gestor_ejemplo_con emitir_carne_gestor_con [OF validar_sustituto s]
    by (simp add: generar_sustituto)
  let ?g = "gestor_con
      (EmailNotifier_enviar \<lparr>smtp_server = lit ''smtp.miuniversidad.edu'', smtp_port = 587\<rparr>)
      ConsolePrinter_imprimir"
  let ?b = "map of_nat (concat (map utf8_cp (contenido ana (Finito 10)))) :: bytes"
  let ?w1 = "mundo_ascii\<lparr>store := store mundo_ascii @
        [\<lparr>usuario = ana, costo = Finito 10, carne = ?b\<rparr>],
      stdout := stdout mundo_ascii @
        [lit ''[InMemoryRepository] Usuario '' @ id_usuario ana @
         lit '' guardado (mem). Total registros: '' @
         digitos (Suc (length (store mundo_ascii)))]\<rparr>"
  let ?l1 = "lit ''[EmailNotifier] Enviando email a '' @ correo ana @ lit '': '' @ asunto_carne @
      [0x0A] @ take 80 (cuerpo_carne ana (Finito 10)) @ lit ''...''"
  have id: "\<forall>x\<in>set (id_usuario ana). x < 128" by (simp add: ana_def lit_def)
  have g: "SimpleCardGenerator_generar ana (calcular CostoEstudiantePre ana) mundo_ascii =
      (Inr ?b, mundo_ascii)"
    using generar_Inr [OF ana_no_surrogate, of "Finito 10" mundo_ascii] by simp
  have r: "InMemoryRepository_guardar_usuario ana (calcular CostoEstudiantePre ana) ?b
      mundo_ascii = (Inr (), ?w1)"
    using guardar_ascii [OF mundo_ascii_ascii id, of "Finito 10" ?b] by simp
  have u1: "stdout_falla ?w1 = ascii_estricto" by (simp add: mundo_ascii_def)
  have "\<exists>x\<in>set ?l1. 128 \<le> x" by (simp add: asunto_carne_def)
  from print_ascii_Inl [OF u1 this] obtain e1 where e1: "print_stdout ?l1 ?w1 = (Inl e1, ?w1)"
    by blast
  have pre: "\<forall>x\<in>set (lit ''[GestorCarne] Error enviando notificaci''). x < 128"
    by (simp add: lit_def)
  have len: "length (lit ''[GestorCarne] Error enviando notificaci'') = 39"
    by (simp add: lit_def)
  from print_ascii_at [OF u1 pre, of "0xF3" "0x6E" "0x3A # 0x20 # str_exc e1"]
  have h: "print_stdout (linea_error_enviar e1) ?w1 =
      (Inl (encode_error (lit ''ascii'') (lit ''ordinal not in range(128)'') 0xF3 39 40), ?w1)"
    unfolding len linea_error_enviar_split by simp
  have t: "try_enviar ?g ana (calcular CostoEstudiantePre ana) ?b ?w1 =
      (Inl (encode_error (lit ''ascii'') (lit ''ordinal not in range(128)'') 0xF3 39 40), ?w1)"
    using e1 h
    by (simp add: try_enviar_def capturar_def gestor_con_def EmailNotifier_enviar_def luego_def)
  have run: "emitir_carne gestor_ejemplo ana mundo_ascii =
      (Inl (encode_error (lit ''ascii'') (lit ''ordinal not in range(128)'') 0xF3 39 40), ?w1)"
    unfolding gestor_ejemplo_con emitir_carne_gestor_con [OF validar_ana ana_strategy] g
    by (simp only: prod.case sum.case r t)
  have st: "map usuario (store ?w1) = [ana]" by (simp add: mundo_ascii_def mundo_inicial_def)
  show ?thesis unfolding run a using st validar_sustituto validar_ana
    by (simp only: fst_conv snd_conv simp_thms)
qed

text \<open>
  C6, as amended. On a console that encodes as UTF-8, for every valid member whose name
  and identifier contain no surrogate code point, \<open>emitir_carne\<close> in the example wiring
  returns the member's identifier and the fee of its category (10 for
  \<open>estudiante_pre\<close>), and the store is the old one with exactly one record appended: the
  member, the fee and the card bytes. For every valid member with a surrogate in its
  name or identifier, on any console, \<open>emitir_carne\<close> raises \<open>UnicodeEncodeError\<close> and
  leaves the state, hence the store, as it was.
\<close>

theorem valid_member_issued:
  assumes "UsuarioValidator_validar u = Inr ()"
  shows "(stdout_falla w = utf8_estricto \<and> (\<forall>x\<in>set (nombre u @ id_usuario u). \<not> surrogate x) \<longrightarrow>
       (\<exists>s b. get_costo_strategy (tipo u) = Inr s \<and>
          fst (SimpleCardGenerator_generar u (calcular s u) w) = Inr b \<and>
          fst (emitir_carne gestor_ejemplo u w) =
            Inr \<lparr>usuario_id = id_usuario u, costo_resultado = calcular s u\<rparr> \<and>
          store (snd (emitir_carne gestor_ejemplo u w)) =
            store w @ [\<lparr>usuario = u, costo = calcular s u, carne = b\<rparr>] \<and>
          (tipo u = lit ''estudiante_pre'' \<longrightarrow> calcular s u = Finito 10))) \<and>
     ((\<exists>x\<in>set (nombre u @ id_usuario u). surrogate x) \<longrightarrow>
       (\<exists>m. emitir_carne gestor_ejemplo u w = (Inl (UnicodeEncodeError m), w)))"
proof (intro conjI impI)
  from validar_Inr_tipo [OF assms] have t: "tipo u \<in> set tipos" .
  from tipos_get_costo_strategy [OF t] obtain s where s: "get_costo_strategy (tipo u) = Inr s" ..
  let ?c = "calcular s u"
  let ?g = "gestor_con
      (EmailNotifier_enviar \<lparr>smtp_server = lit ''smtp.miuniversidad.edu'', smtp_port = 587\<rparr>)
      ConsolePrinter_imprimir"
  {
    assume "\<exists>x\<in>set (nombre u @ id_usuario u). surrogate x"
    then have "\<exists>x\<in>set (nombre u @ id_usuario u @ tipo u). surrogate x" by auto
    from generar_Inl [OF this, of ?c w] obtain m where
      "SimpleCardGenerator_generar u ?c w = (Inl (UnicodeEncodeError m), w)" ..
    then have "emitir_carne gestor_ejemplo u w = (Inl (UnicodeEncodeError m), w)"
      unfolding gestor_ejemplo_con emitir_carne_gestor_con [OF assms s] by simp
    then show "\<exists>m. emitir_carne gestor_ejemplo u w = (Inl (UnicodeEncodeError m), w)" ..
  }
  {
    assume h: "stdout_falla w = utf8_estricto \<and>
      (\<forall>x\<in>set (nombre u @ id_usuario u). \<not> surrogate x)"
    then have u0: "stdout_falla w = utf8_estricto"
      and ni: "\<forall>x\<in>set (nombre u @ id_usuario u). \<not> surrogate x" by simp_all
    from t ni have ns: "\<forall>x\<in>set (nombre u @ id_usuario u @ tipo u). \<not> surrogate x"
      by (auto dest: tipos_no_surrogate)
    from ni have id: "\<forall>x\<in>set (id_usuario u). \<not> surrogate x" by simp
    let ?b = "map of_nat (concat (map utf8_cp (contenido u ?c))) :: bytes"
    let ?w1 = "w\<lparr>store := store w @ [\<lparr>usuario = u, costo = ?c, carne = ?b\<rparr>],
        stdout := stdout w @
          [lit ''[InMemoryRepository] Usuario '' @ id_usuario u @
           lit '' guardado (mem). Total registros: '' @ digitos (Suc (length (store w)))]\<rparr>"
    have g: "SimpleCardGenerator_generar u ?c w = (Inr ?b, w)" by (rule generar_Inr [OF ns])
    have r: "InMemoryRepository_guardar_usuario u ?c ?b w = (Inr (), ?w1)"
      by (rule guardar_utf8 [OF u0 id])
    have u1: "stdout_falla ?w1 = utf8_estricto" using u0 by simp
    from try_enviar_utf8 [OF u1 ni, of ?g _ ?c ?b] obtain w2 where
      e: "try_enviar ?g u ?c ?b ?w1 = (Inr (), w2)" "store w2 = store ?w1"
        "stdout_falla w2 = utf8_estricto"
      by (auto simp add: gestor_con_def)
    from try_imprimir_utf8 [OF e(3), of ?g ?b] obtain w3 where
      i: "try_imprimir ?g ?b w2 = (Inr (), w3)" "store w3 = store w2"
      by (auto simp add: gestor_con_def)
    have run: "emitir_carne gestor_ejemplo u w =
        (Inr \<lparr>usuario_id = id_usuario u, costo_resultado = ?c\<rparr>, w3)"
      unfolding gestor_ejemplo_con emitir_carne_gestor_con [OF assms s] g
      by (simp only: prod.case sum.case r e(1) i(1))
    have st: "store (snd (emitir_carne gestor_ejemplo u w)) =
        store w @ [\<lparr>usuario = u, costo = ?c, carne = ?b\<rparr>]"
      unfolding run using i(2) e(2) by simp
    have fee: "tipo u = lit ''estudiante_pre'' \<longrightarrow> ?c = Finito 10"
      using s by (auto simp add: get_costo_strategy_cases)
    from s g run st fee
    show "\<exists>s b. get_costo_strategy (tipo u) = Inr s \<and>
          fst (SimpleCardGenerator_generar u (calcular s u) w) = Inr b \<and>
          fst (emitir_carne gestor_ejemplo u w) =
            Inr \<lparr>usuario_id = id_usuario u, costo_resultado = calcular s u\<rparr> \<and>
          store (snd (emitir_carne gestor_ejemplo u w)) =
            store w @ [\<lparr>usuario = u, costo = calcular s u, carne = b\<rparr>] \<and>
          (tipo u = lit ''estudiante_pre'' \<longrightarrow> calcular s u = Finito 10)"
      by (intro exI [of _ s] exI [of _ ?b]) simp
  }
qed

theorem valid_member_issued_witness:
  "fst (emitir_carne gestor_ejemplo ana mundo_inicial) =
     Inr \<lparr>usuario_id = lit ''0001'', costo_resultado = Finito 10\<rparr> \<and>
   map usuario (store (snd (emitir_carne gestor_ejemplo ana mundo_inicial))) = [ana] \<and>
   map costo (store (snd (emitir_carne gestor_ejemplo ana mundo_inicial))) = [Finito 10] \<and>
   (\<exists>m. emitir_carne gestor_ejemplo sustituto mundo_inicial =
      (Inl (UnicodeEncodeError m), mundo_inicial))"
proof -
  have ns: "\<forall>x\<in>set (nombre ana @ id_usuario ana). \<not> surrogate x"
    using ana_no_surrogate by auto
  have ss: "\<exists>x\<in>set (nombre sustituto @ id_usuario sustituto). surrogate x"
    by (simp add: sustituto_def surrogate_def)
  have st0: "store mundo_inicial = []" by (simp add: mundo_inicial_def)
  from valid_member_issued [OF validar_ana, of mundo_inicial] mundo_inicial_utf8 ns ana_strategy
  have "fst (emitir_carne gestor_ejemplo ana mundo_inicial) =
      Inr \<lparr>usuario_id = id_usuario ana, costo_resultado = Finito 10\<rparr> \<and>
    map usuario (store (snd (emitir_carne gestor_ejemplo ana mundo_inicial))) = [ana] \<and>
    map costo (store (snd (emitir_carne gestor_ejemplo ana mundo_inicial))) = [Finito 10]"
    by (auto simp add: st0)
  moreover from valid_member_issued [OF validar_sustituto, of mundo_inicial] ss
  have "\<exists>m. emitir_carne gestor_ejemplo sustituto mundo_inicial =
      (Inl (UnicodeEncodeError m), mundo_inicial)"
    by blast
  ultimately show ?thesis by (simp add: ana_def)
qed

end
